theory Spec2Isabelle
  imports Main
begin

section \<open>JavaScript strings and values\<close>

text \<open>
  A JavaScript string is a sequence of UTF-16 code units. The model covers the strings
  whose code units lie in U+0000..U+00FF, one \<^typ>\<open>char\<close> per code unit, so that
  \<open>length\<close> is the \<open>.length\<close> of the source. On this range the white space of
  \<open>String.prototype.trim\<close> and of the regular expression class \<open>\s\<close> is TAB, LF, VT,
  FF, CR, SPACE and NO-BREAK SPACE, and \<open>toLowerCase\<close> maps A..Z and the Latin-1
  capitals U+00C0..U+00DE (without U+00D7) to the letter 32 places further.
\<close>

definition js_space :: "char \<Rightarrow> bool" where
  "js_space c = (c \<in> set [CHR 0x09, CHR 0x0A, CHR 0x0B, CHR 0x0C, CHR 0x0D, CHR 0x20, CHR 0xA0])"

definition trim :: "string \<Rightarrow> string" where
  "trim s = rev (dropWhile js_space (rev (dropWhile js_space s)))"

definition lower_char :: "char \<Rightarrow> char" where
  "lower_char c =
     (let n = (of_char c :: nat)
      in if (65 \<le> n \<and> n \<le> 90) \<or> (192 \<le> n \<and> n \<le> 222 \<and> n \<noteq> 215)
         then char_of (n + 32) else c)"

definition toLowerCase :: "string \<Rightarrow> string" where
  "toLowerCase s = map lower_char s"

text \<open>\<open>s.slice(0, n)\<close> for a non-negative constant \<open>n\<close>.\<close>

definition slice0 :: "string \<Rightarrow> nat \<Rightarrow> string" where
  "slice0 s n = take n s"

fun startsWith :: "string \<Rightarrow> string \<Rightarrow> bool" where
  "startsWith s [] = True"
| "startsWith [] (p # ps) = False"
| "startsWith (x # xs) (p # ps) = (x = p \<and> startsWith xs ps)"

definition endsWith :: "string \<Rightarrow> string \<Rightarrow> bool" where
  "endsWith s p = startsWith (rev s) (rev p)"

fun str_includes :: "string \<Rightarrow> string \<Rightarrow> bool" where
  "str_includes [] p = (p = [])"
| "str_includes (x # xs) p = (startsWith (x # xs) p \<or> str_includes xs p)"

text \<open>
  The values a body field can hold: what \<open>JSON.parse\<close> gives for a scalar, and the
  strings of a form. \<open>undefined\<close> (a property that is not there) is \<open>None\<close> of
  \<^typ>\<open>'a option\<close>. A JavaScript number is a double. The numbers of the model are the
  integers from \<open>-(2^53 - 1)\<close> to \<open>2^53 - 1\<close> (\<open>Number.MAX_SAFE_INTEGER\<close>): a double
  holds each of them exactly and \<open>String\<close> prints each of them with its decimal digits.
  An integer beyond that range (which \<open>JSON.parse\<close> rounds, and which \<open>String\<close> prints
  with the shortest digits that give the double back, in exponent form from \<open>10^21\<close>), a
  fraction, an array or a nested object as field value, and the file parts of a multipart
  form are outside the model.
\<close>

typedef safe_int = "{n :: int. \<bar>n\<bar> \<le> 9007199254740991}"
  morphisms int_of safe
  by (rule exI [of _ 0]) simp

datatype jsval = JNull | JBool bool | JNum safe_int | JStr string

type_synonym field = "jsval option"

fun truthy :: "field \<Rightarrow> bool" where
  "truthy None = False"
| "truthy (Some JNull) = False"
| "truthy (Some (JBool b)) = b"
| "truthy (Some (JNum n)) = (int_of n \<noteq> 0)"
| "truthy (Some (JStr s)) = (s \<noteq> [])"

text \<open>\<open>a || b\<close> on field values.\<close>

definition js_or :: "field \<Rightarrow> field \<Rightarrow> field" where
  "js_or a b = (if truthy a then a else b)"

text \<open>\<open>v == null\<close>: true of \<open>null\<close> and of \<open>undefined\<close>.\<close>

fun eq_null :: "field \<Rightarrow> bool" where
  "eq_null None = True"
| "eq_null (Some JNull) = True"
| "eq_null (Some v) = False"

text \<open>
  \<open>String(v)\<close>. \<open>int_of\<close> reads the integer of a number of the model and \<open>safe\<close>
  makes the number of an integer of the range; \<open>digits\<close> are the decimal digits of a
  natural number.
\<close>

function digits :: "nat \<Rightarrow> string" where
  "digits n = (if n < 10 then [''0123456789'' ! n] else digits (n div 10) @ [''0123456789'' ! (n mod 10)])"
  by pat_completeness auto
termination
  by (relation "measure id") auto

declare digits.simps [simp del]

fun js_String :: "field \<Rightarrow> string" where
  "js_String None = ''undefined''"
| "js_String (Some JNull) = ''null''"
| "js_String (Some (JBool b)) = (if b then ''true'' else ''false'')"
| "js_String (Some (JNum n)) =
     (if int_of n < 0 then CHR ''-'' # digits (nat (- int_of n)) else digits (nat (int_of n)))"
| "js_String (Some (JStr s)) = s"

section \<open>The email pattern\<close>

text \<open>
  The regular expression \<open>/^[^\s@]+@[^\s@]+\.[^\s@]+$/\<close> is a sequence of five items
  between the anchors: the group \<open>[^\s@]+\<close> three times, separated by the literal
  characters \<open>@\<close> and \<open>.\<close>. \<open>rx_test\<close> is \<open>RegExp.prototype.test\<close> for an anchored
  sequence of such items: a group takes one character of its class and then either
  hands over to the rest of the pattern or takes more (backtracking).
\<close>

datatype rx_item = Lit char | NotSpaceAtPlus

definition not_space_at :: "char \<Rightarrow> bool" where
  "not_space_at c = (\<not> js_space c \<and> c \<noteq> CHR ''@'')"

fun rx_test :: "rx_item list \<Rightarrow> string \<Rightarrow> bool" where
  "rx_test [] s = (s = [])"
| "rx_test (Lit c # ps) [] = False"
| "rx_test (Lit c # ps) (x # xs) = (x = c \<and> rx_test ps xs)"
| "rx_test (NotSpaceAtPlus # ps) [] = False"
| "rx_test (NotSpaceAtPlus # ps) (x # xs) =
     (not_space_at x \<and> (rx_test ps xs \<or> rx_test (NotSpaceAtPlus # ps) xs))"

definition email_pattern :: "rx_item list" where
  "email_pattern = [NotSpaceAtPlus, Lit CHR ''@'', NotSpaceAtPlus, Lit CHR ''.'', NotSpaceAtPlus]"

definition isValidEmail :: "string \<Rightarrow> bool" where
  "isValidEmail email = rx_test email_pattern email"

section \<open>Requests, responses and the outside world\<close>

text \<open>
  What \<open>await request.json()\<close> resolves to: \<open>null\<close>, an object (its entries in the
  order of the text; of two entries with one key the later one is the property), or another
  JSON value (a string, number, boolean or array), which has none of the properties the
  handlers read. Reading a property of \<open>null\<close> throws a TypeError.
\<close>

datatype json_doc = DocNull | DocObject "(string \<times> jsval) list" | DocOther

datatype exn = BodyError | TypeError | D1Error | NetworkError

fun props :: "json_doc \<Rightarrow> (string \<Rightarrow> field) option" where
  "props DocNull = None"
| "props (DocObject kvs) = Some (map_of (rev kvs))"
| "props DocOther = Some (\<lambda>k. None)"

text \<open>
  A request. \<open>req_headers\<close> is keyed by the lower-case header name
  (\<open>Headers.get\<close> ignores case). \<open>url_pathname\<close> is \<open>new URL(request.url).pathname\<close>
  (the platform hands over an absolute URL). The three body fields are what the platform's
  readers give on this request, \<open>None\<close> when the promise rejects:
  \<open>req_json\<close> for \<open>request.json()\<close>, \<open>req_formData\<close> for the entries of
  \<open>request.formData()\<close>, \<open>req_text_params\<close> for the entries of
  \<open>new URLSearchParams(await request.text())\<close>.
\<close>

record request =
  req_method :: string
  url_pathname :: string
  req_headers :: "string \<rightharpoonup> string"
  req_json :: "json_doc option"
  req_formData :: "(string \<times> string) list option"
  req_text_params :: "(string \<times> string) list option"

text \<open>
  The row bound to the INSERT, in column order; \<open>None\<close> is SQL NULL.
\<close>

record lead_row =
  row_name :: "string option"
  row_email :: string
  row_website :: "string option"
  row_message :: "string option"
  row_consent :: nat
  row_source_path :: "string option"
  row_user_agent :: "string option"

text \<open>
  The environment: the D1 binding, when present, is given by whether \<open>run()\<close> of the
  INSERT with a row resolves (\<open>True\<close>) or rejects.
\<close>

record env =
  LEADS_DB :: "(lead_row \<Rightarrow> bool) option"
  LEAD_WEBHOOK_URL :: "string option"

record "context" =
  request :: request
  env :: env

text \<open>
  The platform around a request: whether \<open>fetch\<close> of a URL resolves (a response of any
  status) or rejects, \<open>new URL(s).pathname\<close> (\<open>None\<close> when the constructor throws),
  and \<open>new Date().toISOString()\<close>.
\<close>

record runtime =
  fetch_ok :: "string \<Rightarrow> bool"
  URL_pathname :: "string \<Rightarrow> string option"
  now_iso :: string

text \<open>What a handler does to the outside: the INSERTs it runs and the fetches it starts.\<close>

datatype effect = DbRun lead_row | Fetch string "(string \<times> jsval) list"

text \<open>
  A response: its status, its headers, and the object whose \<open>JSON.stringify\<close> is the
  body (\<open>None\<close> for the body \<open>null\<close>). The \<open>Response\<close> constructor of the Fetch
  standard throws a TypeError when a body is given with a null body status.
\<close>

record response =
  status :: nat
  resp_headers :: "string \<rightharpoonup> string"
  body :: "(string \<times> jsval) list option"

definition null_body_status :: "nat \<Rightarrow> bool" where
  "null_body_status st = (st = 101 \<or> st = 204 \<or> st = 205 \<or> st = 304)"

definition new_Response :: "(string \<times> jsval) list option \<Rightarrow> nat \<Rightarrow> (string \<rightharpoonup> string) \<Rightarrow> exn + response" where
  "new_Response b st h =
     (if b \<noteq> None \<and> null_body_status st then Inl TypeError
      else Inr \<lparr>status = st, resp_headers = h, body = b\<rparr>)"

text \<open>\<open>x || ""\<close> on a string or \<open>null\<close>.\<close>

definition or_empty :: "string option \<Rightarrow> string" where
  "or_empty x = (case x of None \<Rightarrow> [] | Some s \<Rightarrow> s)"

text \<open>\<open>x || null\<close> on a string, as bound to the INSERT.\<close>

definition or_null :: "string \<Rightarrow> string option" where
  "or_null s = (if s = [] then None else Some s)"

text \<open>A string or \<open>null\<close> (a header, a form entry) as a field value.\<close>

definition nullable :: "string option \<Rightarrow> field" where
  "nullable x = (case x of None \<Rightarrow> Some JNull | Some s \<Rightarrow> Some (JStr s))"

text \<open>\<open>form.get(k)\<close>: the first entry of that name, or \<open>null\<close>.\<close>

definition form_get :: "(string \<times> string) list \<Rightarrow> string \<Rightarrow> field" where
  "form_get form k = nullable (map_of form k)"

text \<open>\<open>Object.fromEntries\<close> of string entries (and the loop \<open>obj[k] = v\<close>).\<close>

definition fromEntries :: "(string \<times> string) list \<Rightarrow> json_doc" where
  "fromEntries es = DocObject (map (\<lambda>(k, v). (k, JStr v)) es)"

section \<open>The first handler of functions/api/lead.js\<close>

definition jsonResponse :: "(string \<times> jsval) list \<Rightarrow> nat \<Rightarrow> string \<Rightarrow> exn + response" where
  "jsonResponse b st origin =
     (let h0 = [''Content-Type'' \<mapsto> ''application/json; charset=utf-8'',
                ''Cache-Control'' \<mapsto> ''no-store''];
          h1 = (if origin \<noteq> []
                then h0(''Access-Control-Allow-Origin'' \<mapsto> origin, ''Vary'' \<mapsto> ''Origin'')
                else h0);
          h2 = h1(''Access-Control-Allow-Methods'' \<mapsto> ''POST, OPTIONS'',
                  ''Access-Control-Allow-Headers'' \<mapsto> ''Content-Type'',
                  ''Access-Control-Max-Age'' \<mapsto> ''86400'')
      in new_Response (Some b) st h2)"

definition allow :: "string list" where
  "allow = [''https://audituniversepro.com'', ''https://www.audituniversepro.com'']"

definition pickAllowedOrigin :: "request \<Rightarrow> string" where
  "pickAllowedOrigin req =
     (let origin = or_empty (req_headers req ''origin'')
      in if origin = [] then []
         else if endsWith origin ''.pages.dev'' then origin
         else if startsWith origin ''http://localhost'' then origin
         else if origin \<in> set allow then origin else allow ! 0)"

definition normalizeString :: "field \<Rightarrow> nat \<Rightarrow> string" where
  "normalizeString v maxlen =
     (if eq_null v then []
      else (let s = trim (js_String v) in if length s > maxlen then slice0 s maxlen else s))"

record raw_body =
  raw_name :: field
  raw_email :: field
  raw_website :: field
  raw_message :: field
  raw_consent :: field
  raw_source_path :: field
  raw_company :: field

definition readBody :: "request \<Rightarrow> exn + raw_body" where
  "readBody req =
     (let ct = or_empty (req_headers req ''content-type'')
      in if str_includes ct ''application/json''
         then (case req_json req of
                 None \<Rightarrow> Inl BodyError
               | Some data \<Rightarrow>
                   (case props data of
                      None \<Rightarrow> Inl TypeError
                    | Some d \<Rightarrow>
                        Inr \<lparr>raw_name = d ''name'', raw_email = d ''email'',
                             raw_website = d ''website'', raw_message = d ''message'',
                             raw_consent = d ''consent'', raw_source_path = d ''source_path'',
                             raw_company = d ''company''\<rparr>))
         else (case req_formData req of
                 None \<Rightarrow> Inl BodyError
               | Some form \<Rightarrow>
                   Inr \<lparr>raw_name = form_get form ''name'', raw_email = form_get form ''email'',
                        raw_website = form_get form ''website'',
                        raw_message = form_get form ''message'',
                        raw_consent = form_get form ''consent'',
                        raw_source_path = form_get form ''source_path'',
                        raw_company = form_get form ''company''\<rparr>))"

text \<open>\<open>String(raw.consent ?? "").toLowerCase()\<close> compared with "1", "true" and "on".\<close>

definition consent_1 :: "field \<Rightarrow> nat" where
  "consent_1 v =
     (let consentRaw = toLowerCase (js_String (if eq_null v then Some (JStr []) else v))
      in if consentRaw = ''1'' \<or> consentRaw = ''true'' \<or> consentRaw = ''on'' then 1 else 0)"

text \<open>
  The statements of the \<open>try\<close> block after the honeypot check: the fields, the email
  check, the INSERT and the awaited webhook call. An exception leaves through \<open>Inl\<close>.
\<close>

definition submit_1 :: "runtime \<Rightarrow> request \<Rightarrow> env \<Rightarrow> (lead_row \<Rightarrow> bool) \<Rightarrow> string \<Rightarrow> raw_body
    \<Rightarrow> (exn + response) \<times> effect list" where
  "submit_1 rt req e db origin raw =
     (let name = normalizeString (raw_name raw) 120;
          email = toLowerCase (normalizeString (raw_email raw) 200);
          website = normalizeString (raw_website raw) 300;
          message = normalizeString (raw_message raw) 2000;
          consent = consent_1 (raw_consent raw);
          sp = normalizeString (raw_source_path raw) 300;
          source_path = (if sp \<noteq> [] then sp else url_pathname req);
          user_agent = normalizeString (nullable (req_headers req ''user-agent'')) 300
      in if email = [] \<or> \<not> isValidEmail email
         then (jsonResponse [(''ok'', JBool False), (''error'', JStr ''Valid email is required.'')]
                 400 origin, [])
         else
           (let row = \<lparr>row_name = or_null name, row_email = email,
                       row_website = or_null website, row_message = or_null message,
                       row_consent = consent, row_source_path = or_null source_path,
                       row_user_agent = or_null user_agent\<rparr>
            in if \<not> db row then (Inl D1Error, [DbRun row])
               else
                 (let hook = or_empty (LEAD_WEBHOOK_URL e)
                  in if hook \<noteq> []
                     then
                       (let call = Fetch hook
                              [(''name'', JStr name), (''email'', JStr email),
                               (''website'', JStr website), (''message'', JStr message),
                               (''consent'', JBool (consent \<noteq> 0)),
                               (''source_path'', JStr source_path),
                               (''user_agent'', JStr user_agent), (''ts'', JStr (now_iso rt))]
                        in if fetch_ok rt hook
                           then (jsonResponse [(''ok'', JBool True)] 200 origin, [DbRun row, call])
                           else (Inl NetworkError, [DbRun row, call]))
                     else (jsonResponse [(''ok'', JBool True)] 200 origin, [DbRun row]))))"

definition try_1 :: "runtime \<Rightarrow> request \<Rightarrow> env \<Rightarrow> string \<Rightarrow> (exn + response) \<times> effect list" where
  "try_1 rt req e origin =
     (case LEADS_DB e of
        None \<Rightarrow>
          (jsonResponse [(''ok'', JBool False), (''error'', JStr ''Missing D1 binding: LEADS_DB'')]
             500 origin, [])
      | Some db \<Rightarrow>
          (case readBody req of
             Inl x \<Rightarrow> (Inl x, [])
           | Inr raw \<Rightarrow>
               (let company = normalizeString (raw_company raw) 200
                in if company \<noteq> [] then (jsonResponse [(''ok'', JBool True)] 200 origin, [])
                   else submit_1 rt req e db origin raw)))"

text \<open>
  Modelled from the spec: the \<open>catch\<close> block of this handler is cut off in the source
  after \<open>return jsonResponse({ ok: false, error: "S\<close>; the rest of the message and the
  status are missing. The spec gives "unexpected exceptions: 500 with generic message".
\<close>

definition catch_1 :: "string \<Rightarrow> exn + response" where
  "catch_1 origin = jsonResponse [(''ok'', JBool False), (''error'', JStr ''Server error'')] 500 origin"

definition onRequest_1 :: "runtime \<Rightarrow> context \<Rightarrow> (exn + response) \<times> effect list" where
  "onRequest_1 rt ctx =
     (let req = request ctx; e = env ctx; origin = pickAllowedOrigin req
      in if req_method req = ''OPTIONS'' then (jsonResponse [(''ok'', JBool True)] 204 origin, [])
         else if req_method req \<noteq> ''POST''
         then (jsonResponse [(''ok'', JBool False), (''error'', JStr ''Method not allowed'')]
                 405 origin, [])
         else (case try_1 rt req e origin of
                 (Inl x, effs) \<Rightarrow> (catch_1 origin, effs)
               | (Inr r, effs) \<Rightarrow> (Inr r, effs)))"

section \<open>The second handler of functions/api/lead.js\<close>

definition corsHeaders :: "string \<Rightarrow> (string \<rightharpoonup> string)" where
  "corsHeaders origin =
     [''Access-Control-Allow-Origin'' \<mapsto> (if origin \<noteq> [] then origin else ''*''),
      ''Access-Control-Allow-Methods'' \<mapsto> ''POST, OPTIONS'',
      ''Access-Control-Allow-Headers'' \<mapsto> ''Content-Type'',
      ''Access-Control-Max-Age'' \<mapsto> ''86400'',
      ''Vary'' \<mapsto> ''Origin'']"

text \<open>The local function \<open>json\<close>, with the \<open>origin\<close> it closes over.\<close>

definition json_2 :: "string \<Rightarrow> (string \<times> jsval) list \<Rightarrow> nat \<Rightarrow> exn + response" where
  "json_2 origin obj st =
     new_Response (Some obj) st
       ([''Content-Type'' \<mapsto> ''application/json; charset=utf-8''] ++ corsHeaders origin)"

text \<open>
  The body parser. \<open>read_2\<close> is the body of its \<open>try\<close> (\<open>None\<close>: the reader chosen by
  the content type threw); the \<open>catch\<close> leaves \<open>data = {}\<close>.
\<close>

definition read_2 :: "request \<Rightarrow> json_doc option" where
  "read_2 req =
     (let ct = toLowerCase (or_empty (req_headers req ''content-type''))
      in if str_includes ct ''application/json'' then req_json req
         else if str_includes ct ''application/x-www-form-urlencoded''
         then map_option fromEntries (req_text_params req)
         else if str_includes ct ''multipart/form-data''
         then map_option fromEntries (req_formData req)
         else map_option fromEntries (req_text_params req))"

definition parse_2 :: "request \<Rightarrow> json_doc" where
  "parse_2 req = (case read_2 req of None \<Rightarrow> DocObject [] | Some data \<Rightarrow> data)"

definition str :: "field \<Rightarrow> string" where
  "str v = trim (if eq_null v then [] else js_String v)"

definition consent_2 :: "field \<Rightarrow> nat" where
  "consent_2 v =
     (let consentRaw = toLowerCase (str v)
      in if consentRaw \<in> set [''1'', ''true'', ''on'', ''yes''] then 1 else 0)"

text \<open>
  The statements after the consent check: the INSERT in its own \<open>try\<close>, then the webhook
  call in its own \<open>try\<close>, whose \<open>catch\<close> is empty. \<open>kvs\<close> are the entries of the
  payload between \<open>created_at\<close> and \<open>ip\<close>.
\<close>

definition store_2 :: "runtime \<Rightarrow> request \<Rightarrow> env \<Rightarrow> string \<Rightarrow> lead_row \<Rightarrow> (string \<times> jsval) list
    \<Rightarrow> (exn + response) \<times> effect list" where
  "store_2 rt req e origin row kvs =
     (case LEADS_DB e of
        None \<Rightarrow>
          (json_2 origin
             [(''ok'', JBool False), (''error'', JStr ''Server not configured (LEADS_DB missing).'')]
             500, [])
      | Some db \<Rightarrow>
          if \<not> db row
          then (json_2 origin
                  [(''ok'', JBool False), (''error'', JStr ''Database insert failed.'')] 500,
                [DbRun row])
          else
            (let webhook = str (map_option JStr (LEAD_WEBHOOK_URL e))
             in if webhook \<noteq> []
                then
                  (let c = or_empty (req_headers req ''cf-connecting-ip'');
                       x = or_empty (req_headers req ''x-forwarded-for'');
                       ip = (if c \<noteq> [] then c else if x \<noteq> [] then x else []);
                       call = Fetch webhook
                                ((''created_at'', JStr (now_iso rt)) # kvs @ [(''ip'', JStr ip)])
                   in if fetch_ok rt webhook
                      then (json_2 origin [(''ok'', JBool True)] 200, [DbRun row, call])
                      else (json_2 origin [(''ok'', JBool True)] 200, [DbRun row, call]))
                else (json_2 origin [(''ok'', JBool True)] 200, [DbRun row])))"

definition onRequest_2 :: "runtime \<Rightarrow> context \<Rightarrow> (exn + response) \<times> effect list" where
  "onRequest_2 rt ctx =
     (let req = request ctx; e = env ctx; origin = or_empty (req_headers req ''origin'')
      in if req_method req = ''OPTIONS''
         then (new_Response None 204 (corsHeaders origin), [])
         else if req_method req \<noteq> ''POST''
         then (json_2 origin
                 [(''ok'', JBool False), (''error'', JStr ''Method not allowed. Use POST.'')] 405, [])
         else
           (case props (parse_2 req) of
              None \<Rightarrow> (Inl TypeError, [])
            | Some d \<Rightarrow>
                (let hp = str (js_or (d ''hp'') (d ''company''))
                 in if hp \<noteq> [] then (json_2 origin [(''ok'', JBool True)] 200, [])
                    else
                      (let name = slice0 (str (d ''name'')) 120;
                           email = slice0 (str (d ''email'')) 200;
                           website = slice0 (str (d ''website'')) 300;
                           message = slice0 (str (d ''message'')) 3000;
                           source_path = slice0 (str (d ''source_path'')) 500;
                           user_agent = slice0 (str (nullable (req_headers req ''user-agent''))) 400;
                           consent = consent_2 (d ''consent'')
                       in if email = []
                          then (json_2 origin
                                  [(''ok'', JBool False), (''error'', JStr ''Email is required.'')]
                                  400, [])
                          else if \<not> isValidEmail email
                          then (json_2 origin
                                  [(''ok'', JBool False), (''error'', JStr ''Invalid email format.'')]
                                  400, [])
                          else if consent = 0
                          then (json_2 origin
                                  [(''ok'', JBool False), (''error'', JStr ''Consent is required.'')]
                                  400, [])
                          else store_2 rt req e origin
                                 \<lparr>row_name = or_null name, row_email = email,
                                  row_website = or_null website, row_message = or_null message,
                                  row_consent = consent, row_source_path = or_null source_path,
                                  row_user_agent = or_null user_agent\<rparr>
                                 [(''name'', JStr name), (''email'', JStr email),
                                  (''website'', JStr website), (''message'', JStr message),
                                  (''consent'', JBool (consent \<noteq> 0)),
                                  (''source_path'', JStr source_path),
                                  (''user_agent'', JStr user_agent)]))))"

section \<open>The third handler (the unnamed source file)\<close>

definition ALLOWED_ORIGINS :: "string list" where
  "ALLOWED_ORIGINS =
     [''https://audituniversepro.com'', ''https://www.audituniversepro.com'',
      ''https://audituniversepro-site.pages.dev'', ''http://localhost:8000'',
      ''http://127.0.0.1:8000'', ''http://localhost:8788'', ''http://127.0.0.1:8788'']"

definition normalizeStr :: "field \<Rightarrow> nat \<Rightarrow> string" where
  "normalizeStr v maxLen =
     (if v = None \<or> v = Some JNull then []
      else (let s = trim (js_String v) in if length s > maxLen then slice0 s maxLen else s))"

definition getAllowedOrigin :: "request \<Rightarrow> string" where
  "getAllowedOrigin req =
     (case req_headers req ''origin'' of
        None \<Rightarrow> []
      | Some origin \<Rightarrow>
          if origin = [] then [] else if origin \<in> set ALLOWED_ORIGINS then origin else [])"

definition jsonResponse_3 :: "(string \<times> jsval) list \<Rightarrow> nat \<Rightarrow> string \<Rightarrow> exn + response" where
  "jsonResponse_3 payload st origin =
     (let h0 = [''Content-Type'' \<mapsto> ''application/json; charset=utf-8'',
                ''Cache-Control'' \<mapsto> ''no-store''];
          h1 = (if origin \<noteq> []
                then h0(''Access-Control-Allow-Origin'' \<mapsto> origin, ''Vary'' \<mapsto> ''Origin'')
                else h0)
      in new_Response (Some payload) st h1)"

definition corsPreflight :: "string \<Rightarrow> exn + response" where
  "corsPreflight origin =
     (let h0 = [''Cache-Control'' \<mapsto> ''no-store'',
                ''Access-Control-Allow-Methods'' \<mapsto> ''POST, OPTIONS'',
                ''Access-Control-Allow-Headers'' \<mapsto> ''Content-Type'',
                ''Access-Control-Max-Age'' \<mapsto> ''86400''];
          h1 = (if origin \<noteq> []
                then h0(''Access-Control-Allow-Origin'' \<mapsto> origin, ''Vary'' \<mapsto> ''Origin'')
                else h0)
      in new_Response None 204 h1)"

definition readBody_3 :: "request \<Rightarrow> exn + json_doc" where
  "readBody_3 req =
     (let ct = or_empty (req_headers req ''content-type'')
      in if str_includes ct ''application/json''
         then (case req_json req of None \<Rightarrow> Inl BodyError | Some d \<Rightarrow> Inr d)
         else (case req_formData req of None \<Rightarrow> Inl BodyError | Some fd \<Rightarrow> Inr (fromEntries fd)))"

definition consent_3 :: "field \<Rightarrow> bool" where
  "consent_3 consentRaw =
     (consentRaw = Some (JBool True) \<or> consentRaw = Some (JStr ''true'') \<or>
      consentRaw = Some (JStr ''1'') \<or> consentRaw = Some (JNum (safe 1)) \<or>
      consentRaw = Some (JStr ''on''))"

text \<open>
  The resolution of \<open>source_path\<close>: the field of the body, else the path of the Referer
  (an exception of \<open>new URL(ref)\<close> is caught and ignored), else the path of the request.
\<close>

definition source_path_3 :: "runtime \<Rightarrow> request \<Rightarrow> field \<Rightarrow> string" where
  "source_path_3 rt req v =
     (let source_path = normalizeStr v 500
      in if source_path = []
         then
           (let ref = or_empty (req_headers req ''referer'');
                source_path' =
                  (if ref \<noteq> []
                   then (case URL_pathname rt ref of None \<Rightarrow> source_path | Some p \<Rightarrow> p)
                   else source_path)
            in if source_path' = [] then url_pathname req else source_path')
         else source_path)"

definition try_3 :: "runtime \<Rightarrow> request \<Rightarrow> env \<Rightarrow> string \<Rightarrow> (exn + response) \<times> effect list" where
  "try_3 rt req e origin =
     (case readBody_3 req of
        Inl x \<Rightarrow> (Inl x, [])
      | Inr data \<Rightarrow>
          (case props data of
             None \<Rightarrow> (Inl TypeError, [])
           | Some b \<Rightarrow>
               (let name = normalizeStr (b ''name'') 200;
                    email = toLowerCase (normalizeStr (b ''email'') 200);
                    website = normalizeStr (b ''website'') 500;
                    message = normalizeStr (b ''message'') 4000;
                    consent = consent_3 (b ''consent'')
                in if email = [] \<or> \<not> isValidEmail email
                   then (jsonResponse_3 [(''ok'', JBool False), (''error'', JStr ''Invalid email'')]
                           400 origin, [])
                   else if \<not> consent
                   then (jsonResponse_3 [(''ok'', JBool False), (''error'', JStr ''Consent required'')]
                           400 origin, [])
                   else
                     (let source_path = source_path_3 rt req (b ''source_path'');
                          user_agent =
                            normalizeStr (Some (JStr (or_empty (req_headers req ''user-agent'')))) 500
                      in case LEADS_DB e of
                           None \<Rightarrow>
                             (jsonResponse_3
                                [(''ok'', JBool False),
                                 (''error'', JStr ''Server misconfiguration (LEADS_DB missing)'')]
                                500 origin, [])
                         | Some db \<Rightarrow>
                             (let row = \<lparr>row_name = Some name, row_email = email,
                                         row_website = Some website, row_message = Some message,
                                         row_consent = 1, row_source_path = Some source_path,
                                         row_user_agent = Some user_agent\<rparr>
                              in if \<not> db row then (Inl D1Error, [DbRun row])
                                 else
                                   (let hook = trim (or_empty (LEAD_WEBHOOK_URL e))
                                    in if hook \<noteq> []
                                       then
                                         (let call = Fetch hook
                                                [(''name'', JStr name), (''email'', JStr email),
                                                 (''website'', JStr website),
                                                 (''message'', JStr message),
                                                 (''consent'', JBool True),
                                                 (''source_path'', JStr source_path),
                                                 (''user_agent'', JStr user_agent),
                                                 (''ts'', JStr (now_iso rt))];
                                              webhook_sent = fetch_ok rt hook
                                          in (jsonResponse_3
                                                [(''ok'', JBool True),
                                                 (''webhook_sent'', JBool webhook_sent)]
                                                200 origin, [DbRun row, call]))
                                       else (jsonResponse_3
                                               [(''ok'', JBool True), (''webhook_sent'', JBool False)]
                                               200 origin, [DbRun row])))))))"

definition onRequest_3 :: "runtime \<Rightarrow> context \<Rightarrow> (exn + response) \<times> effect list" where
  "onRequest_3 rt ctx =
     (let req = request ctx; e = env ctx; origin = getAllowedOrigin req
      in if req_method req = ''OPTIONS'' then (corsPreflight origin, [])
         else if req_method req \<noteq> ''POST''
         then (jsonResponse_3 [(''ok'', JBool False), (''error'', JStr ''Method not allowed'')]
                 405 origin, [])
         else (case try_3 rt req e origin of
                 (Inl x, effs) \<Rightarrow>
                   (jsonResponse_3 [(''ok'', JBool False), (''error'', JStr ''Server error'')]
                      500 origin, effs)
               | (Inr r, effs) \<Rightarrow> (Inr r, effs)))"

section \<open>Observing a handler's result\<close>

text \<open>
  A handler gives the response it returns (or the exception it lets escape) and the list of
  its effects. \<open>replies res st b\<close>: it returns a response of status \<open>st\<close> whose body is the
  JSON of the object \<open>b\<close>.
\<close>

definition replies :: "(exn + response) \<times> effect list \<Rightarrow> nat \<Rightarrow> (string \<times> jsval) list \<Rightarrow> bool" where
  "replies res st b = (case fst res of Inl x \<Rightarrow> False | Inr r \<Rightarrow> status r = st \<and> body r = Some b)"

text \<open>The status of the response and one of its headers (\<open>None\<close> without a response).\<close>

definition status_of :: "(exn + response) \<times> effect list \<Rightarrow> nat option" where
  "status_of res = (case fst res of Inl x \<Rightarrow> None | Inr r \<Rightarrow> Some (status r))"

definition header_of :: "(exn + response) \<times> effect list \<Rightarrow> string \<Rightarrow> string option" where
  "header_of res h = (case fst res of Inl x \<Rightarrow> None | Inr r \<Rightarrow> resp_headers r h)"

text \<open>The response has no body (\<open>new Response(null, ...)\<close>).\<close>

definition no_body :: "(exn + response) \<times> effect list \<Rightarrow> bool" where
  "no_body res = (case fst res of Inl x \<Rightarrow> False | Inr r \<Rightarrow> body r = None)"

fun is_DbRun :: "effect \<Rightarrow> bool" where
  "is_DbRun (DbRun row) = True"
| "is_DbRun (Fetch url payload) = False"

definition inserts :: "(exn + response) \<times> effect list \<Rightarrow> bool" where
  "inserts res = list_ex is_DbRun (snd res)"

text \<open>
  A string is blank when it has white space only; a field is filled when it is neither
  \<open>null\<close> nor \<open>undefined\<close> and its text is not blank.
\<close>

definition blank :: "string \<Rightarrow> bool" where
  "blank s = list_all js_space s"

definition filled :: "field \<Rightarrow> bool" where
  "filled v = (\<not> eq_null v \<and> \<not> blank (js_String v))"

abbreviation ok_true :: "(string \<times> jsval) list" where
  "ok_true \<equiv> [(''ok'', JBool True)]"

abbreviation failure :: "string \<Rightarrow> (string \<times> jsval) list" where
  "failure msg \<equiv> [(''ok'', JBool False), (''error'', JStr msg)]"

section \<open>Example requests and environments\<close>

text \<open>
  A POST to \<open>/api/lead\<close> with a JSON object as body, and one with a URL-encoded form.
  The readers that do not fit the body reject.
\<close>

definition json_post :: "(string \<times> string) list \<Rightarrow> (string \<times> jsval) list \<Rightarrow> request" where
  "json_post hs kvs =
     \<lparr>req_method = ''POST'', url_pathname = ''/api/lead'',
      req_headers = map_of ((''content-type'', ''application/json'') # hs),
      req_json = Some (DocObject kvs), req_formData = None, req_text_params = None\<rparr>"

definition form_post :: "(string \<times> string) list \<Rightarrow> (string \<times> string) list \<Rightarrow> request" where
  "form_post hs es =
     \<lparr>req_method = ''POST'', url_pathname = ''/api/lead'',
      req_headers = map_of ((''content-type'', ''application/x-www-form-urlencoded'') # hs),
      req_json = None, req_formData = Some es, req_text_params = Some es\<rparr>"

text \<open>A POST that declares JSON and whose text is not JSON.\<close>

definition broken_json_post :: request where
  "broken_json_post =
     \<lparr>req_method = ''POST'', url_pathname = ''/api/lead'',
      req_headers = map_of [(''content-type'', ''application/json'')],
      req_json = None, req_formData = None, req_text_params = None\<rparr>"

definition preflight :: "(string \<times> string) list \<Rightarrow> request" where
  "preflight hs =
     \<lparr>req_method = ''OPTIONS'', url_pathname = ''/api/lead'', req_headers = map_of hs,
      req_json = None, req_formData = None, req_text_params = None\<rparr>"

text \<open>A database that takes every row, without and with a webhook; no database.\<close>

definition env_db :: env where
  "env_db = \<lparr>LEADS_DB = Some (\<lambda>row. True), LEAD_WEBHOOK_URL = None\<rparr>"

definition env_hook :: env where
  "env_hook = \<lparr>LEADS_DB = Some (\<lambda>row. True), LEAD_WEBHOOK_URL = Some ''https://hook.example/lead''\<rparr>"

definition env_none :: env where
  "env_none = \<lparr>LEADS_DB = None, LEAD_WEBHOOK_URL = None\<rparr>"

text \<open>A platform whose fetches resolve, and one whose fetches reject (the network is down).\<close>

definition pathname_of :: "string \<Rightarrow> string option" where
  "pathname_of s = (if s = ''https://audituniversepro.com/pricing'' then Some ''/pricing'' else None)"

definition rt_up :: runtime where
  "rt_up = \<lparr>fetch_ok = (\<lambda>url. True), URL_pathname = pathname_of, now_iso = ''2024-01-01T00:00:00.000Z''\<rparr>"

definition rt_down :: runtime where
  "rt_down = \<lparr>fetch_ok = (\<lambda>url. False), URL_pathname = pathname_of, now_iso = ''2024-01-01T00:00:00.000Z''\<rparr>"

section \<open>Auxiliary facts\<close>

text \<open>The numbers of the model and their text.\<close>

lemma int_of_safe: "\<bar>n\<bar> \<le> 9007199254740991 \<Longrightarrow> int_of (safe n) = n"
  by (simp add: safe_inverse)

lemma int_of_bound: "\<bar>int_of n\<bar> \<le> 9007199254740991"
  using int_of [of n] by simp

lemma JNum_eq_safe: "\<bar>k\<bar> \<le> 9007199254740991 \<Longrightarrow> n = safe k \<longleftrightarrow> int_of n = k"
  by (auto simp add: int_of_safe int_of_inverse)

lemma js_String_42: "js_String (Some (JNum (safe 42))) = ''42''"
  by (simp add: int_of_safe digits.simps)

lemma js_String_neg: "js_String (Some (JNum (safe (- 9007199254740991)))) = ''-9007199254740991''"
  by (simp add: int_of_safe digits.simps)

lemma dropWhile_all: "(\<forall>x\<in>set (dropWhile P s). P x) \<longleftrightarrow> (\<forall>x\<in>set s. P x)"
  by (induction s) auto

lemma trim_Nil_iff: "trim s = [] \<longleftrightarrow> blank s"
  by (simp add: trim_def blank_def dropWhile_all list_all_iff)

lemma normalizeString_eq:
  "normalizeString v n = (if eq_null v then [] else take n (trim (js_String v)))"
  by (simp add: normalizeString_def slice0_def Let_def)

lemma normalizeStr_eq: "normalizeStr v n = normalizeString v n"
  by (cases v rule: eq_null.cases) (simp_all add: normalizeStr_def normalizeString_def)

lemma replies_jsonResponse [simp]:
  "replies (jsonResponse b st origin, effs) st' b' \<longleftrightarrow> \<not> null_body_status st \<and> st = st' \<and> b = b'"
  by (auto simp add: replies_def jsonResponse_def new_Response_def Let_def)

lemma replies_json_2 [simp]:
  "replies (json_2 origin b st, effs) st' b' \<longleftrightarrow> \<not> null_body_status st \<and> st = st' \<and> b = b'"
  by (auto simp add: replies_def json_2_def new_Response_def)

lemma replies_jsonResponse_3 [simp]:
  "replies (jsonResponse_3 b st origin, effs) st' b' \<longleftrightarrow> \<not> null_body_status st \<and> st = st' \<and> b = b'"
  by (auto simp add: replies_def jsonResponse_3_def new_Response_def Let_def)

lemma replies_Inl [simp]: "\<not> replies (Inl x, effs) st b"
  by (simp add: replies_def)

lemma inserts_simps [simp]:
  "inserts (r, []) = False"
  "inserts (r, DbRun row # effs) = True"
  by (simp_all add: inserts_def)

lemma null_body_status_simps [simp]:
  "\<not> null_body_status 200" "\<not> null_body_status 400" "\<not> null_body_status 405"
  "\<not> null_body_status 500" "null_body_status 204"
  by (simp_all add: null_body_status_def)

lemma blank_not_filled: "blank w \<Longrightarrow> \<not> filled (Some (JStr w))"
  by (simp add: filled_def)

lemma normalizeString_Nil_iff: "normalizeString v n = [] \<longleftrightarrow> n = 0 \<or> \<not> filled v"
  by (auto simp add: normalizeString_eq filled_def trim_Nil_iff [symmetric])

lemma str_Nil_iff: "str v = [] \<longleftrightarrow> \<not> filled v"
  by (auto simp add: str_def filled_def trim_Nil_iff [symmetric] trim_def)

lemma isValidEmail_Nil [simp]: "\<not> isValidEmail []"
  by (simp add: isValidEmail_def email_pattern_def)

lemma trim_Nil [simp]: "trim [] = []"
  by (simp add: trim_def)

lemma toLowerCase_Nil [simp]: "toLowerCase [] = []"
  by (simp add: toLowerCase_def)

lemma toLowerCase_Nil_iff [simp]: "toLowerCase s = [] \<longleftrightarrow> s = []"
  by (simp add: toLowerCase_def)

lemma normalizeString_take:
  "normalizeString v n \<noteq> [] \<Longrightarrow> normalizeString v n = take n (trim (js_String v))"
  by (simp add: normalizeString_eq split: if_splits)

lemma str_take:
  "slice0 (str v) n \<noteq> [] \<Longrightarrow> slice0 (str v) n = take n (trim (js_String v))"
  by (simp add: str_def slice0_def split: if_splits)

text \<open>What an INSERT of each handler binds.\<close>

lemma onRequest_1_DbRun:
  assumes "DbRun row \<in> set (snd (onRequest_1 rt ctx))" and "readBody (request ctx) = Inr raw"
  shows "row_email row = toLowerCase (normalizeString (raw_email raw) 200) \<and>
         isValidEmail (row_email row) \<and>
         row_consent row = consent_1 (raw_consent raw) \<and>
         row_source_path row =
           or_null (if normalizeString (raw_source_path raw) 300 \<noteq> []
                    then normalizeString (raw_source_path raw) 300
                    else url_pathname (request ctx))"
  using assms
  by (auto simp add: onRequest_1_def try_1_def submit_1_def Let_def
      split: option.splits if_splits sum.splits)

lemma onRequest_2_DbRun:
  assumes "DbRun row \<in> set (snd (onRequest_2 rt ctx))" and "props (parse_2 (request ctx)) = Some d"
  shows "row_email row = slice0 (str (d ''email'')) 200 \<and>
         isValidEmail (row_email row) \<and>
         row_consent row = 1 \<and> consent_2 (d ''consent'') = 1 \<and>
         row_source_path row = or_null (slice0 (str (d ''source_path'')) 500)"
  using assms
  by (auto simp add: onRequest_2_def store_2_def Let_def consent_2_def
      split: option.splits if_splits)

lemma onRequest_3_DbRun:
  assumes "DbRun row \<in> set (snd (onRequest_3 rt ctx))"
    and "readBody_3 (request ctx) = Inr data" and "props data = Some b"
  shows "row_email row = toLowerCase (normalizeStr (b ''email'') 200) \<and>
         isValidEmail (row_email row) \<and>
         row_consent row = 1 \<and> consent_3 (b ''consent'') \<and>
         row_source_path row = Some (source_path_3 rt (request ctx) (b ''source_path''))"
  using assms
  by (auto simp add: onRequest_3_def try_3_def Let_def
      split: option.splits if_splits sum.splits)

lemma inserts_iff: "inserts res \<longleftrightarrow> (\<exists>row. DbRun row \<in> set (snd res))"
proof -
  have "is_DbRun x \<longleftrightarrow> (\<exists>row. x = DbRun row)" for x
    by (cases x) simp_all
  then show ?thesis
    by (auto simp add: inserts_def list_ex_iff)
qed

lemma onRequest_1_inserts:
  assumes "inserts (onRequest_1 rt ctx)" and "readBody (request ctx) = Inr raw"
  shows "isValidEmail (toLowerCase (normalizeString (raw_email raw) 200))"
proof -
  from assms(1) obtain row where "DbRun row \<in> set (snd (onRequest_1 rt ctx))"
    by (auto simp add: inserts_iff)
  from onRequest_1_DbRun [OF this assms(2)] show ?thesis by metis
qed

lemma onRequest_2_inserts:
  assumes "inserts (onRequest_2 rt ctx)" and "props (parse_2 (request ctx)) = Some d"
  shows "isValidEmail (slice0 (str (d ''email'')) 200)"
proof -
  from assms(1) obtain row where "DbRun row \<in> set (snd (onRequest_2 rt ctx))"
    by (auto simp add: inserts_iff)
  from onRequest_2_DbRun [OF this assms(2)] show ?thesis by metis
qed

lemma onRequest_3_inserts:
  assumes "inserts (onRequest_3 rt ctx)"
    and "readBody_3 (request ctx) = Inr data" and "props data = Some b"
  shows "isValidEmail (toLowerCase (normalizeStr (b ''email'') 200))"
proof -
  from assms(1) obtain row where "DbRun row \<in> set (snd (onRequest_3 rt ctx))"
    by (auto simp add: inserts_iff)
  from onRequest_3_DbRun [OF this assms(2,3)] show ?thesis by metis
qed

lemma consent_1_eq:
  "consent_1 v = (if \<not> eq_null v \<and> toLowerCase (js_String v) \<in> set [''1'', ''true'', ''on'']
                  then 1 else 0)"
  by (simp add: consent_1_def Let_def)

lemma consent_2_eq:
  "consent_2 v = (if \<not> eq_null v \<and>
                     toLowerCase (trim (js_String v)) \<in> set [''1'', ''true'', ''on'', ''yes'']
                  then 1 else 0)"
  by (simp add: consent_2_def str_def Let_def)

lemma consent_3_eq:
  "consent_3 v \<longleftrightarrow> v \<in> Some ` set [JBool True, JStr ''true'', JStr ''1'', JNum (safe 1), JStr ''on'']"
  by (auto simp add: consent_3_def)

lemma accepted_words:
  "\<forall>v \<in> set [JStr ''1'', JStr ''true'', JStr ''on'', JBool True].
      consent_1 (Some v) = 1 \<and> consent_2 (Some v) = 1 \<and> consent_3 (Some v)"
  by (simp add: consent_1_def consent_2_def consent_3_def str_def trim_def js_space_def
      toLowerCase_def lower_char_def char_of_def bit_Suc_0_iff Let_def)

lemma yes_word:
  "consent_2 (Some (JStr ''yes'')) = 1 \<and> consent_1 (Some (JStr ''yes'')) = 0 \<and>
   \<not> consent_3 (Some (JStr ''yes''))"
  by (simp add: consent_1_def consent_2_def consent_3_def str_def trim_def js_space_def
      toLowerCase_def lower_char_def char_of_def bit_Suc_0_iff Let_def)

lemma Nil_not_allowed [simp]: "[] \<notin> set ALLOWED_ORIGINS"
  by (simp add: ALLOWED_ORIGINS_def)





lemma rx_test_Lit:
  "rx_test (Lit c # ps) s \<longleftrightarrow> (\<exists>r. s = c # r \<and> rx_test ps r)"
  by (cases s) auto

lemma rx_test_Plus:
  "rx_test (NotSpaceAtPlus # ps) s \<longleftrightarrow>
     (\<exists>a r. s = a @ r \<and> a \<noteq> [] \<and> list_all not_space_at a \<and> rx_test ps r)"
proof (induction s)
  case Nil
  then show ?case by simp
next
  case (Cons x xs)
  show ?case
  proof
    assume "rx_test (NotSpaceAtPlus # ps) (x # xs)"
    then have x: "not_space_at x" and "rx_test ps xs \<or> rx_test (NotSpaceAtPlus # ps) xs"
      by simp_all
    then show "\<exists>a r. x # xs = a @ r \<and> a \<noteq> [] \<and> list_all not_space_at a \<and> rx_test ps r"
    proof (elim disjE)
      assume "rx_test ps xs"
      with x have "x # xs = [x] @ xs \<and> [x] \<noteq> [] \<and> list_all not_space_at [x] \<and> rx_test ps xs"
        by simp
      then show ?thesis by blast
    next
      assume "rx_test (NotSpaceAtPlus # ps) xs"
      with Cons.IH obtain a r where "xs = a @ r" "a \<noteq> []" "list_all not_space_at a" "rx_test ps r"
        by blast
      with x have "x # xs = (x # a) @ r \<and> x # a \<noteq> [] \<and> list_all not_space_at (x # a) \<and> rx_test ps r"
        by simp
      then show ?thesis by blast
    qed
  next
    assume "\<exists>a r. x # xs = a @ r \<and> a \<noteq> [] \<and> list_all not_space_at a \<and> rx_test ps r"
    then obtain a r where s: "x # xs = a @ r" and a: "a \<noteq> []" "list_all not_space_at a"
      and r: "rx_test ps r"
      by blast
    from a(1) obtain a' where a': "a = x # a'" "xs = a' @ r"
      using s by (cases a) auto
    show "rx_test (NotSpaceAtPlus # ps) (x # xs)"
    proof (cases "a' = []")
      case True
      with a a' r show ?thesis by simp
    next
      case False
      with a a' r have "rx_test (NotSpaceAtPlus # ps) xs"
        using Cons.IH by auto
      with a a' show ?thesis by simp
    qed
  qed
qed

text \<open>
  The pattern accepts exactly the strings \<open>a@b.c\<close> with \<open>a\<close>, \<open>b\<close>, \<open>c\<close> non-empty and
  free of white space and of \<open>@\<close>.
\<close>

lemma isValidEmail_iff:
  "isValidEmail s \<longleftrightarrow>
     (\<exists>a b c. s = a @ ''@'' @ b @ ''.'' @ c \<and> a \<noteq> [] \<and> b \<noteq> [] \<and> c \<noteq> [] \<and>
        list_all not_space_at a \<and> list_all not_space_at b \<and> list_all not_space_at c)"
proof -
  have last: "rx_test [NotSpaceAtPlus] s \<longleftrightarrow> s \<noteq> [] \<and> list_all not_space_at s" for s
    by (auto simp add: rx_test_Plus)
  show ?thesis
    unfolding isValidEmail_def email_pattern_def
    by (simp add: rx_test_Plus [of "Lit _ # _"] rx_test_Lit last) blast
qed

text \<open>
  A handler answers a request whose honeypot value is blank as it answers the request
  without the honeypot field.
\<close>

lemma blank_honeypot_1:
  assumes "blank w" and "readBody (request ctx) = Inr raw" and "raw_company raw = Some (JStr w)"
    and e: "env ctx' = env ctx"
    and m: "req_method (request ctx') = req_method (request ctx)"
    and u: "url_pathname (request ctx') = url_pathname (request ctx)"
    and h: "req_headers (request ctx') = req_headers (request ctx)"
    and "eq_null v" and "readBody (request ctx') = Inr (raw\<lparr>raw_company := v\<rparr>)"
  shows "onRequest_1 rt ctx' = onRequest_1 rt ctx"
proof -
  have c: "normalizeString (raw_company raw) 200 = []"
    using assms(1,3) by (simp add: normalizeString_Nil_iff blank_not_filled)
  have n: "normalizeString v 200 = []"
    using assms(8) by (simp add: normalizeString_def)
  have s: "submit_1 rt (request ctx') x db origin (raw\<lparr>raw_company := v\<rparr>) =
      submit_1 rt (request ctx) x db origin raw" for x db origin
    unfolding submit_1_def u h by simp
  have o: "pickAllowedOrigin (request ctx') = pickAllowedOrigin (request ctx)"
    unfolding pickAllowedOrigin_def h ..
  have t: "try_1 rt (request ctx') x origin = try_1 rt (request ctx) x origin" for x origin
    using assms(2,9) c n s by (cases "LEADS_DB x") (simp_all add: try_1_def)
  show ?thesis
    unfolding onRequest_1_def Let_def e m o t ..
qed

lemma blank_honeypot_2:
  assumes "blank w" and "props (parse_2 (request ctx)) = Some d"
    and "js_or (d ''hp'') (d ''company'') = Some (JStr w)"
    and e: "env ctx' = env ctx"
    and m: "req_method (request ctx') = req_method (request ctx)"
    and u: "url_pathname (request ctx') = url_pathname (request ctx)"
    and h: "req_headers (request ctx') = req_headers (request ctx)"
    and p: "props (parse_2 (request ctx')) = Some (d(''hp'' := None, ''company'' := None))"
  shows "onRequest_2 rt ctx' = onRequest_2 rt ctx"
proof -
  have c: "str (js_or (d ''hp'') (d ''company'')) = []"
    using assms(1,3) by (simp add: str_Nil_iff blank_not_filled)
  have n: "str (js_or None None) = []"
    by (simp add: js_or_def str_def)
  have s: "store_2 rt (request ctx') x origin row kvs = store_2 rt (request ctx) x origin row kvs"
    for x origin row kvs
    unfolding store_2_def h ..
  show ?thesis
    unfolding onRequest_2_def Let_def e m h s p assms(2)
    by (simp add: c n)
qed

text \<open>
  The first handler of lead.js answers the preflight through \<open>jsonResponse\<close>, that is
  with the body \<open>{"ok":true}\<close> and the status 204: the constructor refuses the pair, and
  the call stands outside the handler's \<open>try\<close>.
\<close>

lemma onRequest_1_preflight:
  "req_method (request ctx) = ''OPTIONS'' \<Longrightarrow> onRequest_1 rt ctx = (Inl TypeError, [])"
  by (simp add: onRequest_1_def Let_def jsonResponse_def new_Response_def)

text \<open>The definitions that evaluation of a handler on a concrete request unfolds.\<close>

lemmas eval_defs =
  json_post_def form_post_def broken_json_post_def preflight_def env_db_def env_hook_def
  env_none_def rt_up_def rt_down_def pathname_of_def
  onRequest_1_def try_1_def submit_1_def readBody_def pickAllowedOrigin_def normalizeString_def
  consent_1_def catch_1_def jsonResponse_def
  onRequest_2_def store_2_def parse_2_def read_2_def str_def consent_2_def json_2_def
  corsHeaders_def
  onRequest_3_def try_3_def readBody_3_def getAllowedOrigin_def normalizeStr_def consent_3_def
  source_path_3_def jsonResponse_3_def corsPreflight_def
  new_Response_def null_body_status_def or_empty_def or_null_def nullable_def form_get_def
  fromEntries_def trim_def js_space_def slice0_def toLowerCase_def lower_char_def char_of_def
  bit_Suc_0_iff isValidEmail_def email_pattern_def not_space_at_def js_or_def
  replies_def status_of_def header_of_def no_body_def inserts_def filled_def blank_def Let_def endsWith_def
  allow_def ALLOWED_ORIGINS_def

section \<open>The claims\<close>

text \<open>
  The three handlers are \<open>onRequest_1\<close> and \<open>onRequest_2\<close> (the first and the second
  \<open>onRequest\<close> of functions/api/lead.js) and \<open>onRequest_3\<close> (the unnamed source file).
\<close>

subsection \<open>C1: the honeypot\<close>

text \<open>
  C1 as stated (every handler answers a POST with a filled honeypot field by 200
  \<open>{ok:true}\<close>, without INSERT and without webhook call) fails on the third handler, which
  reads neither \<open>company\<close> nor \<open>hp\<close>: the form \<open>company=SpamBot&email=a@b.com&consent=on\<close>
  is stored.
\<close>

theorem honeypot_ignored_by_third_handler:
  "filled (Some (JStr ''SpamBot'')) \<and>
   replies (onRequest_3 rt_up \<lparr>request = form_post []
       [(''company'', ''SpamBot''), (''email'', ''a@b.com''), (''consent'', ''on'')],
     env = env_db\<rparr>) 200 [(''ok'', JBool True), (''webhook_sent'', JBool False)] \<and>
   snd (onRequest_3 rt_up \<lparr>request = form_post []
       [(''company'', ''SpamBot''), (''email'', ''a@b.com''), (''consent'', ''on'')],
     env = env_db\<rparr>) =
     [DbRun \<lparr>row_name = Some [], row_email = ''a@b.com'', row_website = Some [],
        row_message = Some [], row_consent = 1, row_source_path = Some ''/api/lead'',
        row_user_agent = Some []\<rparr>]"
  by (simp add: eval_defs)

text \<open>
  C1, amended. A POST whose honeypot value is filled is answered 200 \<open>{ok:true}\<close> with no
  effect at all (no INSERT, no fetch) by the first handler of lead.js when the database is
  bound, the body is read and the field \<open>company\<close> is filled, and by the second handler
  when the value that \<open>data.hp || data.company\<close> selects is filled.
\<close>

theorem filled_honeypot_dropped:
  assumes "req_method (request ctx) = ''POST''"
  shows "(LEADS_DB (env ctx) \<noteq> None \<and> readBody (request ctx) = Inr raw \<and>
          filled (raw_company raw) \<longrightarrow>
            replies (onRequest_1 rt ctx) 200 ok_true \<and> snd (onRequest_1 rt ctx) = []) \<and>
         (props (parse_2 (request ctx)) = Some d \<and> filled (js_or (d ''hp'') (d ''company'')) \<longrightarrow>
            replies (onRequest_2 rt ctx) 200 ok_true \<and> snd (onRequest_2 rt ctx) = [])"
proof (rule conjI; rule impI)
  assume a: "LEADS_DB (env ctx) \<noteq> None \<and> readBody (request ctx) = Inr raw \<and>
          filled (raw_company raw)"
  then have "normalizeString (raw_company raw) 200 \<noteq> []"
    by (simp add: normalizeString_Nil_iff)
  with a assms show "replies (onRequest_1 rt ctx) 200 ok_true \<and> snd (onRequest_1 rt ctx) = []"
    by (auto simp add: onRequest_1_def try_1_def Let_def jsonResponse_def new_Response_def
        replies_def)
next
  assume a: "props (parse_2 (request ctx)) = Some d \<and> filled (js_or (d ''hp'') (d ''company''))"
  then have "str (js_or (d ''hp'') (d ''company'')) \<noteq> []"
    by (simp add: str_Nil_iff)
  with a assms show "replies (onRequest_2 rt ctx) 200 ok_true \<and> snd (onRequest_2 rt ctx) = []"
    by (simp add: onRequest_2_def Let_def json_2_def new_Response_def replies_def)
qed

theorem filled_honeypot_dropped_witness:
  "req_method (request \<lparr>request = form_post [] [(''company'', ''SpamBot''), (''email'', ''a@b.com'')],
     env = env_hook\<rparr>) = ''POST'' \<and>
   filled (Some (JStr ''SpamBot'')) \<and>
   replies (onRequest_1 rt_up \<lparr>request = form_post []
       [(''company'', ''SpamBot''), (''email'', ''a@b.com'')], env = env_hook\<rparr>) 200 ok_true \<and>
   snd (onRequest_1 rt_up \<lparr>request = form_post []
       [(''company'', ''SpamBot''), (''email'', ''a@b.com'')], env = env_hook\<rparr>) = [] \<and>
   replies (onRequest_2 rt_up \<lparr>request = form_post []
       [(''company'', ''SpamBot''), (''email'', ''a@b.com'')], env = env_hook\<rparr>) 200 ok_true \<and>
   snd (onRequest_2 rt_up \<lparr>request = form_post []
       [(''company'', ''SpamBot''), (''email'', ''a@b.com'')], env = env_hook\<rparr>) = []"
proof -
  let ?es = "[(''company'', ''SpamBot''), (''email'', ''a@b.com'')]"
  let ?ctx = "\<lparr>request = form_post [] ?es, env = env_hook\<rparr>"
  let ?raw = "\<lparr>raw_name = Some JNull, raw_email = Some (JStr ''a@b.com''),
      raw_website = Some JNull, raw_message = Some JNull, raw_consent = Some JNull,
      raw_source_path = Some JNull, raw_company = Some (JStr ''SpamBot'')\<rparr>"
  let ?d = "map_of (rev (map (\<lambda>(k, v). (k, JStr v)) ?es))"
  have post: "req_method (request ?ctx) = ''POST''"
    by (simp add: form_post_def)
  have fl: "filled (Some (JStr ''SpamBot''))"
    by (simp add: filled_def blank_def js_space_def)
  have db: "LEADS_DB (env ?ctx) \<noteq> None"
    by (simp add: env_hook_def)
  have raw: "readBody (request ?ctx) = Inr ?raw"
    by (simp add: readBody_def form_post_def or_empty_def form_get_def nullable_def)
  have d: "props (parse_2 (request ?ctx)) = Some ?d"
    by (simp add: parse_2_def read_2_def form_post_def or_empty_def fromEntries_def
        toLowerCase_def lower_char_def char_of_def bit_Suc_0_iff)
  have hp: "js_or (?d ''hp'') (?d ''company'') = Some (JStr ''SpamBot'')"
    by (simp add: js_or_def)
  from filled_honeypot_dropped [OF post, of ?raw rt_up ?d] db raw d hp fl post
  show ?thesis by simp
qed

subsection \<open>C2: a webhook that cannot be reached\<close>

text \<open>
  C2 as stated (a rejected webhook fetch never changes the 200 of a stored submission, in
  every handler) fails on the first handler of lead.js: its \<open>await fetch\<close> stands in the
  handler's \<open>try\<close> block without a \<open>catch\<close> of its own, so the rejection reaches the
  handler's \<open>catch\<close> block, whose response has \<open>ok: false\<close>.
\<close>

theorem webhook_failure_fails_first_handler:
  "\<not> fetch_ok rt_down ''https://hook.example/lead'' \<and>
   fst (onRequest_1 rt_down \<lparr>request = json_post []
       [(''email'', JStr ''a@b.com''), (''consent'', JStr ''on'')], env = env_hook\<rparr>) =
     catch_1 [] \<and>
   \<not> replies (onRequest_1 rt_down \<lparr>request = json_post []
       [(''email'', JStr ''a@b.com''), (''consent'', JStr ''on'')], env = env_hook\<rparr>)
     200 ok_true \<and>
   replies (onRequest_1 rt_down \<lparr>request = json_post []
       [(''email'', JStr ''a@b.com''), (''consent'', JStr ''on'')], env = env_hook\<rparr>)
     500 (failure ''Server error'') \<and>
   snd (onRequest_1 rt_down \<lparr>request = json_post []
       [(''email'', JStr ''a@b.com''), (''consent'', JStr ''on'')], env = env_hook\<rparr>) =
     [DbRun \<lparr>row_name = None, row_email = ''a@b.com'', row_website = None,
        row_message = None, row_consent = 1, row_source_path = Some ''/api/lead'',
        row_user_agent = None\<rparr>,
      Fetch ''https://hook.example/lead''
        [(''name'', JStr []), (''email'', JStr ''a@b.com''), (''website'', JStr []),
         (''message'', JStr []), (''consent'', JBool True),
         (''source_path'', JStr ''/api/lead''), (''user_agent'', JStr []),
         (''ts'', JStr ''2024-01-01T00:00:00.000Z'')]]"
  by (simp add: eval_defs)

text \<open>
  C2, amended. For a POST whose INSERT ran and resolved: the second handler answers 200
  \<open>{ok:true}\<close> and the third answers 200 with \<open>ok: true\<close> and \<open>webhook_sent\<close> telling
  whether a webhook is configured and its fetch resolved, whatever the fetch does; the first
  handler answers 200 \<open>{ok:true}\<close> when no webhook is configured or the fetch resolves, and
  gives the response of its \<open>catch\<close> block when the fetch rejects.
\<close>

theorem webhook_failure_after_insert:
  assumes "req_method (request ctx) = ''POST''"
    and "LEADS_DB (env ctx) = Some db" and "db row"
  shows "(DbRun row \<in> set (snd (onRequest_2 rt ctx)) \<longrightarrow>
            replies (onRequest_2 rt ctx) 200 ok_true) \<and>
         (DbRun row \<in> set (snd (onRequest_3 rt ctx)) \<longrightarrow>
            replies (onRequest_3 rt ctx) 200
              [(''ok'', JBool True),
               (''webhook_sent'',
                JBool (trim (or_empty (LEAD_WEBHOOK_URL (env ctx))) \<noteq> [] \<and>
                       fetch_ok rt (trim (or_empty (LEAD_WEBHOOK_URL (env ctx))))))]) \<and>
         (DbRun row \<in> set (snd (onRequest_1 rt ctx)) \<longrightarrow>
            (if or_empty (LEAD_WEBHOOK_URL (env ctx)) \<noteq> [] \<and>
                \<not> fetch_ok rt (or_empty (LEAD_WEBHOOK_URL (env ctx)))
             then fst (onRequest_1 rt ctx) = catch_1 (pickAllowedOrigin (request ctx))
             else replies (onRequest_1 rt ctx) 200 ok_true))"
proof (intro conjI impI)
  assume "DbRun row \<in> set (snd (onRequest_2 rt ctx))"
  with assms show "replies (onRequest_2 rt ctx) 200 ok_true"
    by (auto simp add: onRequest_2_def store_2_def Let_def json_2_def new_Response_def
        replies_def split: option.splits if_splits)
next
  assume "DbRun row \<in> set (snd (onRequest_3 rt ctx))"
  with assms show "replies (onRequest_3 rt ctx) 200
              [(''ok'', JBool True),
               (''webhook_sent'',
                JBool (trim (or_empty (LEAD_WEBHOOK_URL (env ctx))) \<noteq> [] \<and>
                       fetch_ok rt (trim (or_empty (LEAD_WEBHOOK_URL (env ctx))))))]"
    by (auto simp add: onRequest_3_def try_3_def Let_def jsonResponse_3_def new_Response_def
        replies_def corsPreflight_def split: option.splits if_splits sum.splits)
next
  assume "DbRun row \<in> set (snd (onRequest_1 rt ctx))"
  with assms show "if or_empty (LEAD_WEBHOOK_URL (env ctx)) \<noteq> [] \<and>
                \<not> fetch_ok rt (or_empty (LEAD_WEBHOOK_URL (env ctx)))
             then fst (onRequest_1 rt ctx) = catch_1 (pickAllowedOrigin (request ctx))
             else replies (onRequest_1 rt ctx) 200 ok_true"
    by (auto simp add: onRequest_1_def try_1_def submit_1_def Let_def jsonResponse_def
        new_Response_def replies_def catch_1_def split: option.splits if_splits sum.splits)
qed

theorem webhook_failure_after_insert_witness:
  "req_method (request \<lparr>request = json_post []
       [(''email'', JStr ''a@b.com''), (''consent'', JStr ''on'')], env = env_hook\<rparr>) = ''POST'' \<and>
   \<not> fetch_ok rt_down ''https://hook.example/lead'' \<and>
   replies (onRequest_2 rt_down \<lparr>request = json_post []
       [(''email'', JStr ''a@b.com''), (''consent'', JStr ''on'')], env = env_hook\<rparr>) 200 ok_true \<and>
   replies (onRequest_3 rt_down \<lparr>request = json_post []
       [(''email'', JStr ''a@b.com''), (''consent'', JStr ''on'')], env = env_hook\<rparr>) 200
     [(''ok'', JBool True), (''webhook_sent'', JBool False)] \<and>
   fst (onRequest_1 rt_down \<lparr>request = json_post []
       [(''email'', JStr ''a@b.com''), (''consent'', JStr ''on'')], env = env_hook\<rparr>) = catch_1 []"
proof -
  let ?ctx = "\<lparr>request = json_post [] [(''email'', JStr ''a@b.com''), (''consent'', JStr ''on'')],
    env = env_hook\<rparr>"
  let ?row = "\<lparr>row_name = None, row_email = ''a@b.com'', row_website = None,
    row_message = None, row_consent = 1, row_source_path = None, row_user_agent = None\<rparr>"
  let ?row1 = "?row\<lparr>row_source_path := Some ''/api/lead''\<rparr>"
  let ?row3 = "\<lparr>row_name = Some [], row_email = ''a@b.com'', row_website = Some [],
    row_message = Some [], row_consent = 1, row_source_path = Some ''/api/lead'',
    row_user_agent = Some []\<rparr>"
  have post: "req_method (request ?ctx) = ''POST''"
    by (simp add: json_post_def)
  have db: "LEADS_DB (env ?ctx) = Some (\<lambda>row. True)"
    by (simp add: env_hook_def)
  have hook: "LEAD_WEBHOOK_URL (env ?ctx) = Some ''https://hook.example/lead''"
    by (simp add: env_hook_def)
  have down: "\<not> fetch_ok rt_down ''https://hook.example/lead''"
    by (simp add: rt_down_def)
  have tr: "trim ''https://hook.example/lead'' = ''https://hook.example/lead''"
    by (simp add: trim_def js_space_def)
  have o: "pickAllowedOrigin (request ?ctx) = []"
    by (simp add: pickAllowedOrigin_def json_post_def or_empty_def)
  have i2: "DbRun ?row \<in> set (snd (onRequest_2 rt_down ?ctx))"
    by (simp add: eval_defs)
  have i3: "DbRun ?row3 \<in> set (snd (onRequest_3 rt_down ?ctx))"
    by (simp add: eval_defs)
  have i1: "DbRun ?row1 \<in> set (snd (onRequest_1 rt_down ?ctx))"
    by (simp add: eval_defs)
  from webhook_failure_after_insert [OF post db, of ?row rt_down]
    webhook_failure_after_insert [OF post db, of ?row3 rt_down]
    webhook_failure_after_insert [OF post db, of ?row1 rt_down]
    i1 i2 i3 hook down tr o post
  show ?thesis by (simp add: or_empty_def)
qed

subsection \<open>C3: the stored email\<close>

text \<open>
  C3 as stated (the email bound to the INSERT is the caller's email, trimmed and
  lower-cased, in every handler) fails on the second handler of lead.js, which trims and
  cuts the email and never lower-cases it: \<open>A@B.CO\<close> is stored as it came.
\<close>

theorem second_handler_keeps_case:
  "snd (onRequest_2 rt_up \<lparr>request = json_post []
       [(''email'', JStr ''A@B.CO''), (''consent'', JStr ''on'')], env = env_db\<rparr>) =
     [DbRun \<lparr>row_name = None, row_email = ''A@B.CO'', row_website = None,
        row_message = None, row_consent = 1, row_source_path = None,
        row_user_agent = None\<rparr>] \<and>
   toLowerCase (trim ''A@B.CO'') = ''a@b.co''"
  by (simp add: eval_defs)

text \<open>
  C3, amended. The email bound to an INSERT is the text of the caller's \<open>email\<close> field,
  trimmed and cut to its first 200 code units; the first handler of lead.js and the third
  handler lower-case it, the second handler of lead.js stores it in the caller's case. (An
  email of at most 200 code units after trimming is not cut.)
\<close>

theorem stored_email:
  "(readBody (request ctx) = Inr raw \<and> DbRun row \<in> set (snd (onRequest_1 rt ctx)) \<longrightarrow>
      row_email row = toLowerCase (take 200 (trim (js_String (raw_email raw))))) \<and>
   (props (parse_2 (request ctx)) = Some d \<and> DbRun row \<in> set (snd (onRequest_2 rt ctx)) \<longrightarrow>
      row_email row = take 200 (trim (js_String (d ''email'')))) \<and>
   (readBody_3 (request ctx) = Inr data \<and> props data = Some b \<and>
    DbRun row \<in> set (snd (onRequest_3 rt ctx)) \<longrightarrow>
      row_email row = toLowerCase (take 200 (trim (js_String (b ''email'')))))"
proof (intro conjI impI)
  assume a: "readBody (request ctx) = Inr raw \<and> DbRun row \<in> set (snd (onRequest_1 rt ctx))"
  then have e: "row_email row = toLowerCase (normalizeString (raw_email raw) 200)"
    and v: "isValidEmail (row_email row)"
    using onRequest_1_DbRun [of row rt ctx raw] by blast+
  from v have "row_email row \<noteq> []" by auto
  with e have "normalizeString (raw_email raw) 200 \<noteq> []" by auto
  from normalizeString_take [OF this] e
  show "row_email row = toLowerCase (take 200 (trim (js_String (raw_email raw))))"
    by simp
next
  assume a: "props (parse_2 (request ctx)) = Some d \<and> DbRun row \<in> set (snd (onRequest_2 rt ctx))"
  then have e: "row_email row = slice0 (str (d ''email'')) 200"
    and v: "isValidEmail (row_email row)"
    using onRequest_2_DbRun [of row rt ctx d] by blast+
  from v have "row_email row \<noteq> []" by auto
  with e have "slice0 (str (d ''email'')) 200 \<noteq> []" by auto
  from str_take [OF this] e
  show "row_email row = take 200 (trim (js_String (d ''email'')))"
    by simp
next
  assume a: "readBody_3 (request ctx) = Inr data \<and> props data = Some b \<and>
    DbRun row \<in> set (snd (onRequest_3 rt ctx))"
  then have e: "row_email row = toLowerCase (normalizeStr (b ''email'') 200)"
    and v: "isValidEmail (row_email row)"
    using onRequest_3_DbRun [of row rt ctx data b] by blast+
  from v have "row_email row \<noteq> []" by auto
  with e have "normalizeString (b ''email'') 200 \<noteq> []" by (auto simp add: normalizeStr_eq)
  from normalizeString_take [OF this] e
  show "row_email row = toLowerCase (take 200 (trim (js_String (b ''email''))))"
    by (simp add: normalizeStr_eq)
qed

theorem stored_email_witness:
  "DbRun \<lparr>row_name = None, row_email = ''jo@example.com'', row_website = None,
      row_message = None, row_consent = 1, row_source_path = Some ''/api/lead'',
      row_user_agent = None\<rparr>
     \<in> set (snd (onRequest_1 rt_up \<lparr>request = json_post []
       [(''email'', JStr '' Jo@Example.COM  ''), (''consent'', JStr ''on'')], env = env_db\<rparr>)) \<and>
   DbRun \<lparr>row_name = None, row_email = ''Jo@Example.COM'', row_website = None,
      row_message = None, row_consent = 1, row_source_path = None,
      row_user_agent = None\<rparr>
     \<in> set (snd (onRequest_2 rt_up \<lparr>request = json_post []
       [(''email'', JStr '' Jo@Example.COM  ''), (''consent'', JStr ''on'')], env = env_db\<rparr>)) \<and>
   DbRun \<lparr>row_name = Some [], row_email = ''jo@example.com'', row_website = Some [],
      row_message = Some [], row_consent = 1, row_source_path = Some ''/api/lead'',
      row_user_agent = Some []\<rparr>
     \<in> set (snd (onRequest_3 rt_up \<lparr>request = json_post []
       [(''email'', JStr '' Jo@Example.COM  ''), (''consent'', JStr ''on'')], env = env_db\<rparr>)) \<and>
   ''jo@example.com'' = toLowerCase (take 200 (trim (js_String (Some (JStr '' Jo@Example.COM  ''))))) \<and>
   ''Jo@Example.COM'' = take 200 (trim (js_String (Some (JStr '' Jo@Example.COM  ''))))"
proof -
  let ?kvs = "[(''email'', JStr '' Jo@Example.COM  ''), (''consent'', JStr ''on'')]"
  let ?ctx = "\<lparr>request = json_post [] ?kvs, env = env_db\<rparr>"
  let ?raw = "\<lparr>raw_name = None, raw_email = Some (JStr '' Jo@Example.COM  ''),
      raw_website = None, raw_message = None, raw_consent = Some (JStr ''on''),
      raw_source_path = None, raw_company = None\<rparr>"
  let ?d = "map_of (rev ?kvs)"
  let ?row1 = "\<lparr>row_name = None, row_email = ''jo@example.com'', row_website = None,
      row_message = None, row_consent = 1, row_source_path = Some ''/api/lead'',
      row_user_agent = None\<rparr>"
  let ?row2 = "\<lparr>row_name = None, row_email = ''Jo@Example.COM'', row_website = None,
      row_message = None, row_consent = 1, row_source_path = None,
      row_user_agent = None\<rparr>"
  let ?row3 = "\<lparr>row_name = Some [], row_email = ''jo@example.com'', row_website = Some [],
        row_message = Some [], row_consent = 1, row_source_path = Some ''/api/lead'',
        row_user_agent = Some []\<rparr>"
  have raw: "readBody (request ?ctx) = Inr ?raw"
    by (simp add: readBody_def json_post_def or_empty_def)
  have d: "props (parse_2 (request ?ctx)) = Some ?d"
    by (simp add: parse_2_def read_2_def json_post_def or_empty_def
        toLowerCase_def lower_char_def char_of_def bit_Suc_0_iff)
  have b: "readBody_3 (request ?ctx) = Inr (DocObject ?kvs) \<and> props (DocObject ?kvs) = Some ?d"
    by (simp add: readBody_3_def json_post_def or_empty_def)
  have i1: "DbRun ?row1 \<in> set (snd (onRequest_1 rt_up ?ctx))"
    by (simp add: eval_defs)
  have i2: "DbRun ?row2 \<in> set (snd (onRequest_2 rt_up ?ctx))"
    by (simp add: eval_defs)
  have i3: "DbRun ?row3 \<in> set (snd (onRequest_3 rt_up ?ctx))"
    by (simp add: eval_defs)
  from stored_email [of ?ctx ?raw ?row1 rt_up ?d "DocObject ?kvs" ?d]
    stored_email [of ?ctx ?raw ?row2 rt_up ?d "DocObject ?kvs" ?d]
    stored_email [of ?ctx ?raw ?row3 rt_up ?d "DocObject ?kvs" ?d]
    raw d b i1 i2 i3
  show ?thesis by simp
qed

subsection \<open>C4: an email that does not match\<close>

text \<open>
  C4 as stated (every POST whose normalized email is empty or does not match the pattern is
  answered 400 with \<open>ok: false\<close>) fails where an earlier exit of a handler takes the
  request: the second handler of lead.js answers the form
  \<open>company=SpamBot&email=not-an-email\<close> by 200 \<open>{ok:true}\<close>, its honeypot check coming
  before the email check.
\<close>

theorem invalid_email_behind_honeypot:
  "\<not> isValidEmail (slice0 (str (Some (JStr ''not-an-email''))) 200) \<and>
   replies (onRequest_2 rt_up \<lparr>request = form_post []
       [(''company'', ''SpamBot''), (''email'', ''not-an-email'')], env = env_db\<rparr>) 200 ok_true"
  by (simp add: eval_defs)

text \<open>
  C4, amended. No handler runs an INSERT for a POST whose normalized email does not match
  the pattern (the empty string does not match). The answer is 400 with \<open>ok: false\<close>
  whenever the request gets to the email check: in the first handler of lead.js when the
  database is bound, the body is read and the honeypot is not filled; in the second when
  the honeypot is not filled; in the third when the body is read.
\<close>

theorem invalid_email_rejected:
  assumes "req_method (request ctx) = ''POST''"
  shows "(readBody (request ctx) = Inr raw \<and>
          \<not> isValidEmail (toLowerCase (normalizeString (raw_email raw) 200)) \<longrightarrow>
            \<not> inserts (onRequest_1 rt ctx) \<and>
            (LEADS_DB (env ctx) \<noteq> None \<and> \<not> filled (raw_company raw) \<longrightarrow>
               replies (onRequest_1 rt ctx) 400 (failure ''Valid email is required.''))) \<and>
         (props (parse_2 (request ctx)) = Some d \<and>
          \<not> isValidEmail (slice0 (str (d ''email'')) 200) \<longrightarrow>
            \<not> inserts (onRequest_2 rt ctx) \<and>
            (\<not> filled (js_or (d ''hp'') (d ''company'')) \<longrightarrow>
               replies (onRequest_2 rt ctx) 400
                 (failure (if slice0 (str (d ''email'')) 200 = [] then ''Email is required.''
                           else ''Invalid email format.'')))) \<and>
         (readBody_3 (request ctx) = Inr data \<and> props data = Some b \<and>
          \<not> isValidEmail (toLowerCase (normalizeStr (b ''email'') 200)) \<longrightarrow>
            \<not> inserts (onRequest_3 rt ctx) \<and>
            replies (onRequest_3 rt ctx) 400 (failure ''Invalid email''))"
proof (intro conjI impI)
  assume a: "readBody (request ctx) = Inr raw \<and>
          \<not> isValidEmail (toLowerCase (normalizeString (raw_email raw) 200))"
  show "\<not> inserts (onRequest_1 rt ctx)"
    using a onRequest_1_inserts [of rt ctx raw] by blast
  assume "LEADS_DB (env ctx) \<noteq> None \<and> \<not> filled (raw_company raw)"
  then have "normalizeString (raw_company raw) 200 = []"
    by (simp add: normalizeString_Nil_iff)
  with a assms \<open>LEADS_DB (env ctx) \<noteq> None \<and> \<not> filled (raw_company raw)\<close>
  show "replies (onRequest_1 rt ctx) 400 (failure ''Valid email is required.'')"
    by (auto simp add: onRequest_1_def try_1_def submit_1_def Let_def jsonResponse_def
        new_Response_def replies_def)
next
  assume a: "props (parse_2 (request ctx)) = Some d \<and>
          \<not> isValidEmail (slice0 (str (d ''email'')) 200)"
  show "\<not> inserts (onRequest_2 rt ctx)"
    using a onRequest_2_inserts [of rt ctx d] by blast
  assume "\<not> filled (js_or (d ''hp'') (d ''company''))"
  then have "str (js_or (d ''hp'') (d ''company'')) = []"
    by (simp add: str_Nil_iff)
  with a assms
  show "replies (onRequest_2 rt ctx) 400
                 (failure (if slice0 (str (d ''email'')) 200 = [] then ''Email is required.''
                           else ''Invalid email format.''))"
    by (auto simp add: onRequest_2_def Let_def json_2_def new_Response_def replies_def)
next
  assume a: "readBody_3 (request ctx) = Inr data \<and> props data = Some b \<and>
          \<not> isValidEmail (toLowerCase (normalizeStr (b ''email'') 200))"
  show "\<not> inserts (onRequest_3 rt ctx)"
    using a onRequest_3_inserts [of rt ctx data b] by blast
  from a assms show "replies (onRequest_3 rt ctx) 400 (failure ''Invalid email'')"
    by (auto simp add: onRequest_3_def try_3_def Let_def jsonResponse_3_def new_Response_def
        replies_def)
qed

theorem invalid_email_rejected_witness:
  "req_method (request \<lparr>request = json_post []
       [(''email'', JStr ''not-an-email''), (''consent'', JStr ''on'')], env = env_db\<rparr>) = ''POST'' \<and>
   \<not> isValidEmail ''not-an-email'' \<and>
   \<not> inserts (onRequest_1 rt_up \<lparr>request = json_post []
       [(''email'', JStr ''not-an-email''), (''consent'', JStr ''on'')], env = env_db\<rparr>) \<and>
   replies (onRequest_1 rt_up \<lparr>request = json_post []
       [(''email'', JStr ''not-an-email''), (''consent'', JStr ''on'')], env = env_db\<rparr>)
     400 (failure ''Valid email is required.'') \<and>
   \<not> inserts (onRequest_2 rt_up \<lparr>request = json_post []
       [(''email'', JStr ''not-an-email''), (''consent'', JStr ''on'')], env = env_db\<rparr>) \<and>
   replies (onRequest_2 rt_up \<lparr>request = json_post []
       [(''email'', JStr ''not-an-email''), (''consent'', JStr ''on'')], env = env_db\<rparr>)
     400 (failure ''Invalid email format.'') \<and>
   \<not> inserts (onRequest_3 rt_up \<lparr>request = json_post []
       [(''email'', JStr ''not-an-email''), (''consent'', JStr ''on'')], env = env_db\<rparr>) \<and>
   replies (onRequest_3 rt_up \<lparr>request = json_post []
       [(''email'', JStr ''not-an-email''), (''consent'', JStr ''on'')], env = env_db\<rparr>)
     400 (failure ''Invalid email'')"
proof -
  let ?kvs = "[(''email'', JStr ''not-an-email''), (''consent'', JStr ''on'')]"
  let ?ctx = "\<lparr>request = json_post [] ?kvs, env = env_db\<rparr>"
  let ?raw = "\<lparr>raw_name = None, raw_email = Some (JStr ''not-an-email''),
      raw_website = None, raw_message = None, raw_consent = Some (JStr ''on''),
      raw_source_path = None, raw_company = None\<rparr>"
  let ?d = "map_of (rev ?kvs)"
  have post: "req_method (request ?ctx) = ''POST''"
    by (simp add: json_post_def)
  have raw: "readBody (request ?ctx) = Inr ?raw"
    by (simp add: readBody_def json_post_def or_empty_def)
  have d: "props (parse_2 (request ?ctx)) = Some ?d"
    by (simp add: parse_2_def read_2_def json_post_def or_empty_def
        toLowerCase_def lower_char_def char_of_def bit_Suc_0_iff)
  have b: "readBody_3 (request ?ctx) = Inr (DocObject ?kvs) \<and> props (DocObject ?kvs) = Some ?d"
    by (simp add: readBody_3_def json_post_def or_empty_def)
  have bad: "\<not> isValidEmail ''not-an-email''"
    by (simp add: isValidEmail_def email_pattern_def not_space_at_def js_space_def)
  have n1: "toLowerCase (normalizeString (raw_email ?raw) 200) = ''not-an-email''"
    by (simp add: normalizeString_def trim_def js_space_def toLowerCase_def lower_char_def)
  have n2: "slice0 (str (?d ''email'')) 200 = ''not-an-email''"
    by (simp add: str_def slice0_def trim_def js_space_def)
  have n3: "toLowerCase (normalizeStr (?d ''email'') 200) = ''not-an-email''"
    by (simp add: normalizeStr_def trim_def js_space_def toLowerCase_def lower_char_def)
  have db: "LEADS_DB (env ?ctx) \<noteq> None"
    by (simp add: env_db_def)
  have hp: "\<not> filled (raw_company ?raw) \<and> \<not> filled (js_or (?d ''hp'') (?d ''company''))"
    by (simp add: filled_def js_or_def)
  from invalid_email_rejected [OF post, of ?raw rt_up ?d "DocObject ?kvs" ?d]
    raw d b bad n1 n2 n3 db hp post
  show ?thesis by simp
qed

subsection \<open>C5: the consent field\<close>

text \<open>
  C5 as stated (every handler takes "1", "true", "on", "yes" and \<open>true\<close> for consent and
  everything else for none) fails on "yes": only the second handler of lead.js has it in
  its list. The third handler answers a valid submission with \<open>consent: "yes"\<close> by 400.
\<close>

theorem yes_is_no_consent_for_third_handler:
  "replies (onRequest_3 rt_up \<lparr>request = json_post []
       [(''email'', JStr ''a@b.com''), (''consent'', JStr ''yes'')], env = env_db\<rparr>)
     400 (failure ''Consent required'') \<and>
   snd (onRequest_3 rt_up \<lparr>request = json_post []
       [(''email'', JStr ''a@b.com''), (''consent'', JStr ''yes'')], env = env_db\<rparr>) = []"
  by (simp add: eval_defs)

text \<open>
  C5, amended. Every handler takes "1", "true", "on" and the boolean \<open>true\<close> for consent;
  "yes" is consent for the second handler of lead.js only. The first handler of lead.js
  compares the lower-cased text of the field with "1", "true", "on", the second the trimmed
  and lower-cased text with "1", "true", "on", "yes", and the third the value itself with
  \<open>true\<close>, "true", "1", \<open>1\<close>, "on"; every other value is no consent. The first handler
  stores the result as 0 or 1; the second and the third store 1, since they insert only
  with consent.
\<close>

theorem consent_coercion:
  "(\<forall>v \<in> set [JStr ''1'', JStr ''true'', JStr ''on'', JBool True].
      consent_1 (Some v) = 1 \<and> consent_2 (Some v) = 1 \<and> consent_3 (Some v)) \<and>
   (consent_2 (Some (JStr ''yes'')) = 1 \<and> consent_1 (Some (JStr ''yes'')) = 0 \<and>
    \<not> consent_3 (Some (JStr ''yes''))) \<and>
   consent_1 v = (if \<not> eq_null v \<and> toLowerCase (js_String v) \<in> set [''1'', ''true'', ''on'']
                  then 1 else 0) \<and>
   consent_2 v = (if \<not> eq_null v \<and>
                     toLowerCase (trim (js_String v)) \<in> set [''1'', ''true'', ''on'', ''yes'']
                  then 1 else 0) \<and>
   (consent_3 v \<longleftrightarrow>
      v \<in> Some ` set [JBool True, JStr ''true'', JStr ''1'', JNum (safe 1), JStr ''on'']) \<and>
   (readBody (request ctx) = Inr raw \<and> DbRun row \<in> set (snd (onRequest_1 rt ctx)) \<longrightarrow>
      row_consent row = consent_1 (raw_consent raw)) \<and>
   (props (parse_2 (request ctx)) = Some d \<and> DbRun row \<in> set (snd (onRequest_2 rt ctx)) \<longrightarrow>
      row_consent row = 1 \<and> consent_2 (d ''consent'') = 1) \<and>
   (readBody_3 (request ctx) = Inr data \<and> props data = Some b \<and>
    DbRun row \<in> set (snd (onRequest_3 rt ctx)) \<longrightarrow>
      row_consent row = 1 \<and> consent_3 (b ''consent''))"
  using accepted_words yes_word consent_1_eq [of v] consent_2_eq [of v] consent_3_eq [of v]
    onRequest_1_DbRun [of row rt ctx raw] onRequest_2_DbRun [of row rt ctx d]
    onRequest_3_DbRun [of row rt ctx data b]
  by blast

theorem consent_coercion_witness:
  "DbRun \<lparr>row_name = None, row_email = ''a@b.com'', row_website = None,
      row_message = None, row_consent = 1, row_source_path = Some ''/api/lead'',
      row_user_agent = None\<rparr>
     \<in> set (snd (onRequest_1 rt_up \<lparr>request = json_post []
       [(''email'', JStr ''a@b.com''), (''consent'', JBool True)], env = env_db\<rparr>)) \<and>
   DbRun \<lparr>row_name = None, row_email = ''a@b.com'', row_website = None,
      row_message = None, row_consent = 1, row_source_path = None,
      row_user_agent = None\<rparr>
     \<in> set (snd (onRequest_2 rt_up \<lparr>request = json_post []
       [(''email'', JStr ''a@b.com''), (''consent'', JBool True)], env = env_db\<rparr>)) \<and>
   DbRun \<lparr>row_name = Some [], row_email = ''a@b.com'', row_website = Some [],
      row_message = Some [], row_consent = 1, row_source_path = Some ''/api/lead'',
      row_user_agent = Some []\<rparr>
     \<in> set (snd (onRequest_3 rt_up \<lparr>request = json_post []
       [(''email'', JStr ''a@b.com''), (''consent'', JBool True)], env = env_db\<rparr>)) \<and>
   JBool True \<in> set [JStr ''1'', JStr ''true'', JStr ''on'', JBool True] \<and>
   consent_1 (Some (JBool True)) = 1 \<and> consent_2 (Some (JBool True)) = 1 \<and>
   consent_3 (Some (JBool True))"
proof -
  let ?kvs = "[(''email'', JStr ''a@b.com''), (''consent'', JBool True)]"
  let ?ctx = "\<lparr>request = json_post [] ?kvs, env = env_db\<rparr>"
  let ?raw = "\<lparr>raw_name = None, raw_email = Some (JStr ''a@b.com''),
      raw_website = None, raw_message = None, raw_consent = Some (JBool True),
      raw_source_path = None, raw_company = None\<rparr>"
  let ?d = "map_of (rev ?kvs)"
  let ?row1 = "\<lparr>row_name = None, row_email = ''a@b.com'', row_website = None,
      row_message = None, row_consent = 1, row_source_path = Some ''/api/lead'',
      row_user_agent = None\<rparr>"
  let ?row2 = "\<lparr>row_name = None, row_email = ''a@b.com'', row_website = None,
      row_message = None, row_consent = 1, row_source_path = None,
      row_user_agent = None\<rparr>"
  let ?row3 = "\<lparr>row_name = Some [], row_email = ''a@b.com'', row_website = Some [],
        row_message = Some [], row_consent = 1, row_source_path = Some ''/api/lead'',
        row_user_agent = Some []\<rparr>"
  have raw: "readBody (request ?ctx) = Inr ?raw"
    by (simp add: readBody_def json_post_def or_empty_def)
  have d: "props (parse_2 (request ?ctx)) = Some ?d"
    by (simp add: parse_2_def read_2_def json_post_def or_empty_def
        toLowerCase_def lower_char_def char_of_def bit_Suc_0_iff)
  have b: "readBody_3 (request ?ctx) = Inr (DocObject ?kvs) \<and> props (DocObject ?kvs) = Some ?d"
    by (simp add: readBody_3_def json_post_def or_empty_def)
  have i1: "DbRun ?row1 \<in> set (snd (onRequest_1 rt_up ?ctx))"
    by (simp add: eval_defs)
  have i2: "DbRun ?row2 \<in> set (snd (onRequest_2 rt_up ?ctx))"
    by (simp add: eval_defs)
  have i3: "DbRun ?row3 \<in> set (snd (onRequest_3 rt_up ?ctx))"
    by (simp add: eval_defs)
  have m: "JBool True \<in> set [JStr ''1'', JStr ''true'', JStr ''on'', JBool True]"
    by simp
  note claim = consent_coercion [of "Some (JBool True)" ?ctx ?raw ?row1 rt_up ?d "DocObject ?kvs" ?d]
  from claim have "\<forall>v \<in> set [JStr ''1'', JStr ''true'', JStr ''on'', JBool True].
      consent_1 (Some v) = 1 \<and> consent_2 (Some v) = 1 \<and> consent_3 (Some v)"
    by (rule conjunct1)
  from bspec [OF this m]
  have c: "consent_1 (Some (JBool True)) = 1 \<and> consent_2 (Some (JBool True)) = 1 \<and>
    consent_3 (Some (JBool True))" .
  from claim raw i1 have "row_consent ?row1 = consent_1 (raw_consent ?raw)"
    by blast
  with i1 i2 i3 m c show ?thesis
    by blast
qed

subsection \<open>C6: a body that cannot be read\<close>

text \<open>
  C6 as stated (every handler takes a body that cannot be parsed for an empty field map and
  goes on) fails on the third handler: the exception of its reader reaches the handler's
  \<open>catch\<close> block, and a POST that declares JSON and carries no JSON is answered 500
  "Server error".
\<close>

theorem broken_json_fails_third_handler:
  "req_json broken_json_post = None \<and>
   replies (onRequest_3 rt_up \<lparr>request = broken_json_post, env = env_db\<rparr>)
     500 (failure ''Server error'') \<and>
   snd (onRequest_3 rt_up \<lparr>request = broken_json_post, env = env_db\<rparr>) = []"
  by (simp add: eval_defs)

text \<open>
  C6, amended. When the reader chosen by the content type throws, the second handler of
  lead.js goes on with the empty object: no field is there, and it answers 400 "Email is
  required." without any effect. In the third handler the exception is caught by the
  handler's \<open>catch\<close> block, which answers 500 "Server error"; in the first handler of
  lead.js (database bound) it is caught by the handler's \<open>catch\<close> block as well, which
  gives its error response. Neither runs an INSERT or a fetch.
\<close>

theorem unreadable_body:
  assumes "req_method (request ctx) = ''POST''"
  shows "(read_2 (request ctx) = None \<longrightarrow>
            parse_2 (request ctx) = DocObject [] \<and>
            replies (onRequest_2 rt ctx) 400 (failure ''Email is required.'') \<and>
            snd (onRequest_2 rt ctx) = []) \<and>
         (readBody_3 (request ctx) = Inl x \<longrightarrow>
            replies (onRequest_3 rt ctx) 500 (failure ''Server error'') \<and>
            snd (onRequest_3 rt ctx) = []) \<and>
         (readBody (request ctx) = Inl x \<and> LEADS_DB (env ctx) \<noteq> None \<longrightarrow>
            onRequest_1 rt ctx = (catch_1 (pickAllowedOrigin (request ctx)), []))"
proof (intro conjI impI)
  assume a: "read_2 (request ctx) = None"
  then show p: "parse_2 (request ctx) = DocObject []"
    by (simp add: parse_2_def)
  from p assms show "replies (onRequest_2 rt ctx) 400 (failure ''Email is required.'')"
    by (simp add: onRequest_2_def Let_def js_or_def str_def slice0_def json_2_def
        new_Response_def replies_def)
  from p assms show "snd (onRequest_2 rt ctx) = []"
    by (simp add: onRequest_2_def Let_def js_or_def str_def slice0_def)
next
  assume a: "readBody_3 (request ctx) = Inl x"
  with assms show "replies (onRequest_3 rt ctx) 500 (failure ''Server error'')"
    by (simp add: onRequest_3_def try_3_def Let_def jsonResponse_3_def new_Response_def
        replies_def)
  from a assms show "snd (onRequest_3 rt ctx) = []"
    by (simp add: onRequest_3_def try_3_def Let_def)
next
  assume "readBody (request ctx) = Inl x \<and> LEADS_DB (env ctx) \<noteq> None"
  with assms show "onRequest_1 rt ctx = (catch_1 (pickAllowedOrigin (request ctx)), [])"
    by (auto simp add: onRequest_1_def try_1_def Let_def)
qed

theorem unreadable_body_witness:
  "req_method (request \<lparr>request = broken_json_post, env = env_db\<rparr>) = ''POST'' \<and>
   read_2 broken_json_post = None \<and> readBody_3 broken_json_post = Inl BodyError \<and>
   readBody broken_json_post = Inl BodyError \<and>
   parse_2 broken_json_post = DocObject [] \<and>
   replies (onRequest_2 rt_up \<lparr>request = broken_json_post, env = env_db\<rparr>)
     400 (failure ''Email is required.'') \<and>
   replies (onRequest_3 rt_up \<lparr>request = broken_json_post, env = env_db\<rparr>)
     500 (failure ''Server error'') \<and>
   onRequest_1 rt_up \<lparr>request = broken_json_post, env = env_db\<rparr> = (catch_1 [], [])"
proof -
  let ?ctx = "\<lparr>request = broken_json_post, env = env_db\<rparr>"
  have post: "req_method (request ?ctx) = ''POST''"
    by (simp add: broken_json_post_def)
  have r2: "read_2 broken_json_post = None"
    by (simp add: read_2_def broken_json_post_def or_empty_def
        toLowerCase_def lower_char_def char_of_def bit_Suc_0_iff)
  have r3: "readBody_3 broken_json_post = Inl BodyError"
    by (simp add: readBody_3_def broken_json_post_def or_empty_def)
  have r1: "readBody broken_json_post = Inl BodyError"
    by (simp add: readBody_def broken_json_post_def or_empty_def)
  have db: "LEADS_DB (env ?ctx) \<noteq> None"
    by (simp add: env_db_def)
  have o: "pickAllowedOrigin broken_json_post = []"
    by (simp add: pickAllowedOrigin_def broken_json_post_def or_empty_def)
  from unreadable_body [OF post, where x = BodyError and rt = rt_up] r1 r2 r3 db o post
  show ?thesis by simp
qed

subsection \<open>C7: the preflight request\<close>

text \<open>
  C7 as stated (the answer to OPTIONS carries \<open>Access-Control-Allow-Origin\<close> exactly for
  an Origin of the static allow-list) fails on the second handler of lead.js, which has no
  allow-list and sends back whatever Origin it is given.
\<close>

theorem second_handler_reflects_any_origin:
  "''https://evil.example'' \<notin> set ALLOWED_ORIGINS \<and> ''https://evil.example'' \<notin> set allow \<and>
   status_of (onRequest_2 rt_up \<lparr>request = preflight [(''origin'', ''https://evil.example'')],
      env = env_db\<rparr>) = Some 204 \<and>
   header_of (onRequest_2 rt_up \<lparr>request = preflight [(''origin'', ''https://evil.example'')],
      env = env_db\<rparr>) ''Access-Control-Allow-Origin'' = Some ''https://evil.example''"
  by (simp add: eval_defs)

text \<open>
  C7, amended. No handler has an effect on an OPTIONS request. The third handler answers
  204 without body, with \<open>Access-Control-Allow-Origin\<close> set to the Origin when the Origin is
  in \<open>ALLOWED_ORIGINS\<close> and absent otherwise. The second handler of lead.js answers 204
  without body, with \<open>Access-Control-Allow-Origin\<close> set to the Origin, or to \<open>*\<close> when
  there is none. (The answer of the first handler of lead.js, which gives a body to a 204,
  is not part of this statement.)
\<close>

theorem preflight_answer:
  assumes "req_method (request ctx) = ''OPTIONS''"
    and "origin = or_empty (req_headers (request ctx) ''origin'')"
  shows "snd (onRequest_1 rt ctx) = [] \<and>
         (snd (onRequest_2 rt ctx) = [] \<and> status_of (onRequest_2 rt ctx) = Some 204 \<and>
          no_body (onRequest_2 rt ctx) \<and>
          header_of (onRequest_2 rt ctx) ''Access-Control-Allow-Origin'' =
            Some (if origin = [] then ''*'' else origin)) \<and>
         (snd (onRequest_3 rt ctx) = [] \<and> status_of (onRequest_3 rt ctx) = Some 204 \<and>
          no_body (onRequest_3 rt ctx) \<and>
          header_of (onRequest_3 rt ctx) ''Access-Control-Allow-Origin'' =
            (if origin \<in> set ALLOWED_ORIGINS then Some origin else None))"
proof (intro conjI)
  show "snd (onRequest_1 rt ctx) = []"
    using assms(1) by (simp add: onRequest_1_def Let_def)
  show "snd (onRequest_2 rt ctx) = []"
    using assms(1) by (simp add: onRequest_2_def Let_def)
  show "status_of (onRequest_2 rt ctx) = Some 204"
    using assms(1) by (simp add: onRequest_2_def Let_def new_Response_def status_of_def)
  show "no_body (onRequest_2 rt ctx)"
    using assms(1) by (simp add: onRequest_2_def Let_def new_Response_def no_body_def)
  show "header_of (onRequest_2 rt ctx) ''Access-Control-Allow-Origin'' =
            Some (if origin = [] then ''*'' else origin)"
    using assms by (simp add: onRequest_2_def Let_def new_Response_def header_of_def
        corsHeaders_def)
  show "snd (onRequest_3 rt ctx) = []"
    using assms(1) by (simp add: onRequest_3_def Let_def)
  show "status_of (onRequest_3 rt ctx) = Some 204"
    using assms(1) by (simp add: onRequest_3_def Let_def corsPreflight_def new_Response_def
        status_of_def)
  show "no_body (onRequest_3 rt ctx)"
    using assms(1) by (simp add: onRequest_3_def Let_def corsPreflight_def new_Response_def
        no_body_def)
  show "header_of (onRequest_3 rt ctx) ''Access-Control-Allow-Origin'' =
            (if origin \<in> set ALLOWED_ORIGINS then Some origin else None)"
    using assms by (auto simp add: onRequest_3_def Let_def corsPreflight_def new_Response_def
        header_of_def getAllowedOrigin_def or_empty_def split: option.splits)
qed

theorem preflight_answer_witness:
  "req_method (request \<lparr>request = preflight [(''origin'', ''https://audituniversepro.com'')],
      env = env_db\<rparr>) = ''OPTIONS'' \<and>
   ''https://audituniversepro.com'' \<in> set ALLOWED_ORIGINS \<and>
   snd (onRequest_1 rt_up \<lparr>request = preflight [(''origin'', ''https://audituniversepro.com'')],
      env = env_db\<rparr>) = [] \<and>
   status_of (onRequest_2 rt_up \<lparr>request = preflight [(''origin'', ''https://audituniversepro.com'')],
      env = env_db\<rparr>) = Some 204 \<and>
   no_body (onRequest_2 rt_up \<lparr>request = preflight [(''origin'', ''https://audituniversepro.com'')],
      env = env_db\<rparr>) \<and>
   header_of (onRequest_2 rt_up \<lparr>request = preflight [(''origin'', ''https://audituniversepro.com'')],
      env = env_db\<rparr>) ''Access-Control-Allow-Origin'' = Some ''https://audituniversepro.com'' \<and>
   status_of (onRequest_3 rt_up \<lparr>request = preflight [(''origin'', ''https://audituniversepro.com'')],
      env = env_db\<rparr>) = Some 204 \<and>
   no_body (onRequest_3 rt_up \<lparr>request = preflight [(''origin'', ''https://audituniversepro.com'')],
      env = env_db\<rparr>) \<and>
   header_of (onRequest_3 rt_up \<lparr>request = preflight [(''origin'', ''https://audituniversepro.com'')],
      env = env_db\<rparr>) ''Access-Control-Allow-Origin'' = Some ''https://audituniversepro.com''"
proof -
  let ?ctx = "\<lparr>request = preflight [(''origin'', ''https://audituniversepro.com'')], env = env_db\<rparr>"
  have opt: "req_method (request ?ctx) = ''OPTIONS''"
    by (simp add: preflight_def)
  have o: "''https://audituniversepro.com'' = or_empty (req_headers (request ?ctx) ''origin'')"
    by (simp add: preflight_def or_empty_def)
  have al: "''https://audituniversepro.com'' \<in> set ALLOWED_ORIGINS"
    by (simp add: ALLOWED_ORIGINS_def)
  from preflight_answer [OF opt o, of rt_up] al opt
  show ?thesis by simp
qed

subsection \<open>C8: the stored source path\<close>




subsection \<open>C9: no database binding\<close>

text \<open>
  C9 as stated (without \<open>LEADS_DB\<close> every POST is answered 500 with a configuration
  error, whatever its body) fails on the second and the third handler, which look for the
  binding only after their checks of the body: an invalid email is answered 400.
\<close>

theorem validation_precedes_database_check:
  "LEADS_DB env_none = None \<and>
   replies (onRequest_2 rt_up \<lparr>request = json_post []
       [(''email'', JStr ''not-an-email''), (''consent'', JStr ''on'')], env = env_none\<rparr>)
     400 (failure ''Invalid email format.'') \<and>
   replies (onRequest_3 rt_up \<lparr>request = json_post []
       [(''email'', JStr ''not-an-email''), (''consent'', JStr ''on'')], env = env_none\<rparr>)
     400 (failure ''Invalid email'')"
  by (simp add: eval_defs)

text \<open>
  C9, amended. Without \<open>LEADS_DB\<close> no handler has an effect on a POST. The first handler
  of lead.js answers every POST by 500 "Missing D1 binding: LEADS_DB". The second handler
  of lead.js and the third handler answer 500 with their configuration message for the
  POSTs that pass their earlier checks (honeypot not filled, in the second; email valid;
  consent given); the others get the answer of the check that stops them.
\<close>

theorem missing_database:
  assumes "req_method (request ctx) = ''POST''" and "LEADS_DB (env ctx) = None"
  shows "(replies (onRequest_1 rt ctx) 500 (failure ''Missing D1 binding: LEADS_DB'') \<and>
          snd (onRequest_1 rt ctx) = []) \<and>
         (snd (onRequest_2 rt ctx) = [] \<and>
          (props (parse_2 (request ctx)) = Some d \<and>
           \<not> filled (js_or (d ''hp'') (d ''company'')) \<and>
           isValidEmail (slice0 (str (d ''email'')) 200) \<and> consent_2 (d ''consent'') = 1 \<longrightarrow>
             replies (onRequest_2 rt ctx) 500
               (failure ''Server not configured (LEADS_DB missing).''))) \<and>
         (snd (onRequest_3 rt ctx) = [] \<and>
          (readBody_3 (request ctx) = Inr data \<and> props data = Some b \<and>
           isValidEmail (toLowerCase (normalizeStr (b ''email'') 200)) \<and>
           consent_3 (b ''consent'') \<longrightarrow>
             replies (onRequest_3 rt ctx) 500
               (failure ''Server misconfiguration (LEADS_DB missing)'')))"
proof (intro conjI impI)
  from assms show "replies (onRequest_1 rt ctx) 500 (failure ''Missing D1 binding: LEADS_DB'')"
    by (simp add: onRequest_1_def try_1_def Let_def jsonResponse_def new_Response_def
        replies_def)
  from assms show "snd (onRequest_1 rt ctx) = []"
    by (simp add: onRequest_1_def try_1_def Let_def jsonResponse_def new_Response_def)
  from assms show "snd (onRequest_2 rt ctx) = []"
    by (simp add: onRequest_2_def store_2_def Let_def split: option.splits)
  from assms show "snd (onRequest_3 rt ctx) = []"
    by (simp add: onRequest_3_def try_3_def Let_def jsonResponse_3_def new_Response_def
        split: sum.splits option.splits)
next
  assume a: "props (parse_2 (request ctx)) = Some d \<and>
           \<not> filled (js_or (d ''hp'') (d ''company'')) \<and>
           isValidEmail (slice0 (str (d ''email'')) 200) \<and> consent_2 (d ''consent'') = 1"
  then have "str (js_or (d ''hp'') (d ''company'')) = []"
    by (simp add: str_Nil_iff)
  moreover from a have "slice0 (str (d ''email'')) 200 \<noteq> []"
    by auto
  ultimately show "replies (onRequest_2 rt ctx) 500
               (failure ''Server not configured (LEADS_DB missing).'')"
    using a assms
    by (simp add: onRequest_2_def store_2_def Let_def json_2_def new_Response_def replies_def)
next
  assume a: "readBody_3 (request ctx) = Inr data \<and> props data = Some b \<and>
           isValidEmail (toLowerCase (normalizeStr (b ''email'') 200)) \<and>
           consent_3 (b ''consent'')"
  then have "toLowerCase (normalizeStr (b ''email'') 200) \<noteq> []"
    by auto
  then show "replies (onRequest_3 rt ctx) 500
               (failure ''Server misconfiguration (LEADS_DB missing)'')"
    using a assms
    by (simp add: onRequest_3_def try_3_def Let_def jsonResponse_3_def new_Response_def
        replies_def)
qed

theorem missing_database_witness:
  "req_method (request \<lparr>request = json_post []
       [(''email'', JStr ''a@b.com''), (''consent'', JStr ''on'')], env = env_none\<rparr>) = ''POST'' \<and>
   LEADS_DB (env \<lparr>request = json_post []
       [(''email'', JStr ''a@b.com''), (''consent'', JStr ''on'')], env = env_none\<rparr>) = None \<and>
   replies (onRequest_1 rt_up \<lparr>request = json_post []
       [(''email'', JStr ''a@b.com''), (''consent'', JStr ''on'')], env = env_none\<rparr>)
     500 (failure ''Missing D1 binding: LEADS_DB'') \<and>
   replies (onRequest_2 rt_up \<lparr>request = json_post []
       [(''email'', JStr ''a@b.com''), (''consent'', JStr ''on'')], env = env_none\<rparr>)
     500 (failure ''Server not configured (LEADS_DB missing).'') \<and>
   replies (onRequest_3 rt_up \<lparr>request = json_post []
       [(''email'', JStr ''a@b.com''), (''consent'', JStr ''on'')], env = env_none\<rparr>)
     500 (failure ''Server misconfiguration (LEADS_DB missing)'')"
proof -
  let ?kvs = "[(''email'', JStr ''a@b.com''), (''consent'', JStr ''on'')]"
  let ?ctx = "\<lparr>request = json_post [] ?kvs, env = env_none\<rparr>"
  let ?d = "map_of (rev ?kvs)"
  have post: "req_method (request ?ctx) = ''POST''"
    by (simp add: json_post_def)
  have nodb: "LEADS_DB (env ?ctx) = None"
    by (simp add: env_none_def)
  have d: "props (parse_2 (request ?ctx)) = Some ?d"
    by (simp add: parse_2_def read_2_def json_post_def or_empty_def
        toLowerCase_def lower_char_def char_of_def bit_Suc_0_iff)
  have b: "readBody_3 (request ?ctx) = Inr (DocObject ?kvs) \<and> props (DocObject ?kvs) = Some ?d"
    by (simp add: readBody_3_def json_post_def or_empty_def)
  have hp: "\<not> filled (js_or (?d ''hp'') (?d ''company''))"
    by (simp add: filled_def js_or_def)
  have e2: "isValidEmail (slice0 (str (?d ''email'')) 200)"
    by (simp add: str_def slice0_def trim_def js_space_def
        isValidEmail_def email_pattern_def not_space_at_def)
  have c2: "consent_2 (?d ''consent'') = 1"
    by (simp add: consent_2_def str_def trim_def js_space_def toLowerCase_def lower_char_def)
  have e3: "isValidEmail (toLowerCase (normalizeStr (?d ''email'') 200))"
    by (simp add: normalizeStr_def trim_def js_space_def toLowerCase_def lower_char_def
        isValidEmail_def email_pattern_def not_space_at_def)
  have c3: "consent_3 (?d ''consent'')"
    by (simp add: consent_3_def)
  from missing_database [OF post nodb, of rt_up ?d "DocObject ?kvs" ?d]
    d b hp e2 c2 e3 c3 post nodb
  show ?thesis by simp
qed

subsection \<open>C10: a honeypot of white space only\<close>

text \<open>
  C10. For every POST request whose honeypot field consists only of white space, the two
  handlers with a honeypot do not take the request for a bot: the value is trimmed before
  the emptiness check, and the request goes on to validation and to the INSERT. In the
  first handler (database bound, body read) a request with a valid email runs the INSERT
  and any other is answered 400; in the second handler, where \<open>data.hp || data.company\<close>
  selects the honeypot value, a request is answered 400 for a missing or invalid email or
  missing consent and otherwise runs the INSERT when the database is bound. Each of the
  two handlers gives, for the request with the blank honeypot, the very result it gives for
  a request that differs only by having no honeypot field.
\<close>

theorem blank_honeypot_is_processed:
  assumes "req_method (request ctx) = ''POST''"
    and "blank w"
  shows "(LEADS_DB (env ctx) = Some db \<and> readBody (request ctx) = Inr raw \<and>
          raw_company raw = Some (JStr w) \<longrightarrow>
            (if isValidEmail (toLowerCase (normalizeString (raw_email raw) 200))
             then inserts (onRequest_1 rt ctx)
             else replies (onRequest_1 rt ctx) 400 (failure ''Valid email is required.''))) \<and>
         (props (parse_2 (request ctx)) = Some d \<and>
          js_or (d ''hp'') (d ''company'') = Some (JStr w) \<longrightarrow>
            (if \<not> isValidEmail (slice0 (str (d ''email'')) 200)
             then replies (onRequest_2 rt ctx) 400
                    (failure (if slice0 (str (d ''email'')) 200 = [] then ''Email is required.''
                              else ''Invalid email format.''))
             else if consent_2 (d ''consent'') = 0
             then replies (onRequest_2 rt ctx) 400 (failure ''Consent is required.'')
             else LEADS_DB (env ctx) \<noteq> None \<longrightarrow> inserts (onRequest_2 rt ctx))) \<and>
         (readBody (request ctx) = Inr raw \<and> raw_company raw = Some (JStr w) \<and>
          env ctx' = env ctx \<and> req_method (request ctx') = req_method (request ctx) \<and>
          url_pathname (request ctx') = url_pathname (request ctx) \<and>
          req_headers (request ctx') = req_headers (request ctx) \<and>
          eq_null v \<and> readBody (request ctx') = Inr (raw\<lparr>raw_company := v\<rparr>) \<longrightarrow>
            onRequest_1 rt ctx' = onRequest_1 rt ctx) \<and>
         (props (parse_2 (request ctx)) = Some d \<and>
          js_or (d ''hp'') (d ''company'') = Some (JStr w) \<and>
          env ctx' = env ctx \<and> req_method (request ctx') = req_method (request ctx) \<and>
          url_pathname (request ctx') = url_pathname (request ctx) \<and>
          req_headers (request ctx') = req_headers (request ctx) \<and>
          props (parse_2 (request ctx')) = Some (d(''hp'' := None, ''company'' := None)) \<longrightarrow>
            onRequest_2 rt ctx' = onRequest_2 rt ctx)"
proof (intro conjI impI)
  assume a: "LEADS_DB (env ctx) = Some db \<and> readBody (request ctx) = Inr raw \<and>
          raw_company raw = Some (JStr w)"
  have "normalizeString (raw_company raw) 200 = []"
    using a assms(2) by (simp add: normalizeString_Nil_iff blank_not_filled)
  then show "if isValidEmail (toLowerCase (normalizeString (raw_email raw) 200))
             then inserts (onRequest_1 rt ctx)
             else replies (onRequest_1 rt ctx) 400 (failure ''Valid email is required.'')"
    using a assms(1)
    by (auto simp add: onRequest_1_def try_1_def submit_1_def Let_def jsonResponse_def
        new_Response_def catch_1_def replies_def)
next
  assume a: "props (parse_2 (request ctx)) = Some d \<and>
          js_or (d ''hp'') (d ''company'') = Some (JStr w)"
  have "str (js_or (d ''hp'') (d ''company'')) = []"
    using a assms(2) by (simp add: str_Nil_iff blank_not_filled)
  then show "if \<not> isValidEmail (slice0 (str (d ''email'')) 200)
             then replies (onRequest_2 rt ctx) 400
                    (failure (if slice0 (str (d ''email'')) 200 = [] then ''Email is required.''
                              else ''Invalid email format.''))
             else if consent_2 (d ''consent'') = 0
             then replies (onRequest_2 rt ctx) 400 (failure ''Consent is required.'')
             else LEADS_DB (env ctx) \<noteq> None \<longrightarrow> inserts (onRequest_2 rt ctx)"
    using a assms(1)
    by (auto simp add: onRequest_2_def store_2_def Let_def json_2_def new_Response_def replies_def)
next
  assume "readBody (request ctx) = Inr raw \<and> raw_company raw = Some (JStr w) \<and>
          env ctx' = env ctx \<and> req_method (request ctx') = req_method (request ctx) \<and>
          url_pathname (request ctx') = url_pathname (request ctx) \<and>
          req_headers (request ctx') = req_headers (request ctx) \<and>
          eq_null v \<and> readBody (request ctx') = Inr (raw\<lparr>raw_company := v\<rparr>)"
  with assms(2) show "onRequest_1 rt ctx' = onRequest_1 rt ctx"
    using blank_honeypot_1 [of w ctx raw ctx' v rt] by simp
next
  assume "props (parse_2 (request ctx)) = Some d \<and>
          js_or (d ''hp'') (d ''company'') = Some (JStr w) \<and>
          env ctx' = env ctx \<and> req_method (request ctx') = req_method (request ctx) \<and>
          url_pathname (request ctx') = url_pathname (request ctx) \<and>
          req_headers (request ctx') = req_headers (request ctx) \<and>
          props (parse_2 (request ctx')) = Some (d(''hp'' := None, ''company'' := None))"
  with assms(2) show "onRequest_2 rt ctx' = onRequest_2 rt ctx"
    using blank_honeypot_2 [of w ctx d ctx' rt] by simp
qed

theorem blank_honeypot_is_processed_witness:
  "req_method (request \<lparr>request = form_post []
       [(''company'', ''  ''), (''email'', ''a@b.com''), (''consent'', ''on'')],
     env = env_db\<rparr>) = ''POST'' \<and>
   blank ''  '' \<and>
   inserts (onRequest_1 rt_up \<lparr>request = form_post []
       [(''company'', ''  ''), (''email'', ''a@b.com''), (''consent'', ''on'')],
     env = env_db\<rparr>) \<and>
   inserts (onRequest_2 rt_up \<lparr>request = form_post []
       [(''company'', ''  ''), (''email'', ''a@b.com''), (''consent'', ''on'')],
     env = env_db\<rparr>) \<and>
   onRequest_1 rt_up \<lparr>request = form_post []
       [(''email'', ''a@b.com''), (''consent'', ''on'')], env = env_db\<rparr> =
   onRequest_1 rt_up \<lparr>request = form_post []
       [(''company'', ''  ''), (''email'', ''a@b.com''), (''consent'', ''on'')],
     env = env_db\<rparr> \<and>
   onRequest_2 rt_up \<lparr>request = form_post []
       [(''email'', ''a@b.com''), (''consent'', ''on'')], env = env_db\<rparr> =
   onRequest_2 rt_up \<lparr>request = form_post []
       [(''company'', ''  ''), (''email'', ''a@b.com''), (''consent'', ''on'')],
     env = env_db\<rparr>"
proof -
  let ?es = "[(''company'', ''  ''), (''email'', ''a@b.com''), (''consent'', ''on'')]"
  let ?es' = "[(''email'', ''a@b.com''), (''consent'', ''on'')]"
  let ?ctx = "\<lparr>request = form_post [] ?es, env = env_db\<rparr>"
  let ?ctx' = "\<lparr>request = form_post [] ?es', env = env_db\<rparr>"
  let ?raw = "\<lparr>raw_name = Some JNull, raw_email = Some (JStr ''a@b.com''),
      raw_website = Some JNull, raw_message = Some JNull, raw_consent = Some (JStr ''on''),
      raw_source_path = Some JNull, raw_company = Some (JStr ''  '')\<rparr>"
  let ?d = "map_of (rev (map (\<lambda>(k, v). (k, JStr v)) ?es))"
  have post: "req_method (request ?ctx) = ''POST''"
    by (simp add: form_post_def)
  have bl: "blank ''  ''"
    by (simp add: blank_def js_space_def)
  have db: "LEADS_DB (env ?ctx) = Some (\<lambda>row. True)"
    by (simp add: env_db_def)
  have raw: "readBody (request ?ctx) = Inr ?raw"
    by (simp add: readBody_def form_post_def or_empty_def form_get_def nullable_def)
  have d: "props (parse_2 (request ?ctx)) = Some ?d"
    by (simp add: parse_2_def read_2_def form_post_def or_empty_def fromEntries_def
        toLowerCase_def lower_char_def char_of_def bit_Suc_0_iff)
  have e1: "isValidEmail (toLowerCase (normalizeString (raw_email ?raw) 200))"
    by (simp add: normalizeString_def trim_def js_space_def toLowerCase_def lower_char_def
        isValidEmail_def email_pattern_def not_space_at_def)
  have e2: "isValidEmail (slice0 (str (?d ''email'')) 200)"
    by (simp add: str_def slice0_def trim_def js_space_def
        isValidEmail_def email_pattern_def not_space_at_def)
  have c2: "consent_2 (?d ''consent'') \<noteq> 0"
    by (simp add: consent_2_def str_def trim_def js_space_def toLowerCase_def lower_char_def)
  have hp: "js_or (?d ''hp'') (?d ''company'') = Some (JStr ''  '')"
    by (simp add: js_or_def)
  have same: "env ?ctx' = env ?ctx \<and> req_method (request ?ctx') = req_method (request ?ctx) \<and>
      url_pathname (request ?ctx') = url_pathname (request ?ctx) \<and>
      req_headers (request ?ctx') = req_headers (request ?ctx)"
    by (simp add: form_post_def)
  have raw': "eq_null (Some JNull) \<and>
      readBody (request ?ctx') = Inr (?raw\<lparr>raw_company := Some JNull\<rparr>)"
    by (simp add: readBody_def form_post_def or_empty_def form_get_def nullable_def)
  have "map_of (rev (map (\<lambda>(k, v). (k, JStr v)) ?es')) = ?d(''hp'' := None, ''company'' := None)"
    by (rule ext) simp
  then have d': "props (parse_2 (request ?ctx')) = Some (?d(''hp'' := None, ''company'' := None))"
    by (simp add: parse_2_def read_2_def form_post_def or_empty_def fromEntries_def
        toLowerCase_def lower_char_def char_of_def bit_Suc_0_iff)
  from blank_honeypot_is_processed [OF post bl, of "\<lambda>row. True" ?raw rt_up ?d ?ctx' "Some JNull"]
    db raw d e1 e2 c2 hp same raw' d' post bl
  show ?thesis by simp
qed

end
